theory Spec2Isabelle
  imports Complex_Main
begin

section \<open>Numeric types (ocs2_core/Types.h)\<close>

text \<open>
  \<^verbatim>\<open>scalar_t\<close> is \<^verbatim>\<open>double\<close> in the source. The times of the grid, the entries of the
  iterate and of the QP step, and the settings are read as real numbers: their sums and
  products are the exact ones, and rounding, overflow and the special values of IEEE
  arithmetic are outside the model for them. The fields of a performance index are the
  scalars of type \<open>double\<close> below, which can be NaN.
  A dynamic Eigen vector is a list of scalars, a dynamic matrix the list of its rows (a
  matrix without rows records no number of columns). Eigen requires matching dimensions
  in every operation (an assertion in debug builds); the list operations below combine
  entries position by position.
\<close>

type_synonym scalar_t = real
type_synonym vector_t = "scalar_t list"
type_synonym matrix_t = "scalar_t list list"
type_synonym vector_array_t = "vector_t list"
type_synonym matrix_array_t = "matrix_t list"

definition dot :: "vector_t \<Rightarrow> vector_t \<Rightarrow> scalar_t" where
  "dot a b = sum_list (map2 (*) a b)"

definition squaredNorm :: "vector_t \<Rightarrow> scalar_t" where
  "squaredNorm v = dot v v"

definition vplus :: "vector_t \<Rightarrow> vector_t \<Rightarrow> vector_t" where
  "vplus a b = map2 (+) a b"

definition vminus :: "vector_t \<Rightarrow> vector_t \<Rightarrow> vector_t" where
  "vminus a b = map2 (-) a b"

definition vscale :: "scalar_t \<Rightarrow> vector_t \<Rightarrow> vector_t" where
  "vscale c v = map ((*) c) v"

definition mat_vec :: "matrix_t \<Rightarrow> vector_t \<Rightarrow> vector_t" where
  "mat_vec A v = map (\<lambda>row. dot row v) A"

text \<open>
  \<^verbatim>\<open>C.noalias() += A * B\<close>: the destination \<open>C\<close> keeps its shape, and its entry
  \<open>(i, j)\<close> grows by the product of row \<open>i\<close> of \<open>A\<close> with column \<open>j\<close> of \<open>B\<close>, which
  is \<open>0\<close> when \<open>A\<close> has no columns and \<open>B\<close> no rows.
\<close>

definition mat_add_product :: "matrix_t \<Rightarrow> matrix_t \<Rightarrow> matrix_t \<Rightarrow> matrix_t" where
  "mat_add_product C A B =
     map (\<lambda>i. map (\<lambda>j. C ! i ! j + dot (A ! i) (map (\<lambda>row. row ! j) B))
                [0..<length (C ! i)])
       [0..<length C]"

text \<open>
  A scalar that is computed from the values of the user's cost and constraint functions
  is a real number or NaN. As in IEEE arithmetic, a sum, difference or product with a
  NaN operand is NaN, the square root of a negative number is NaN, and every comparison
  with a NaN operand is false: \<open>\<not> a > b\<close> does not give \<open>a \<le> b\<close>. The infinities and
  rounding are outside the model: the operations on numbers are the exact ones.
\<close>

datatype double = Finite real | NaN

instantiation double :: "{plus, minus, times, abs, ord}"
begin

fun plus_double :: "double \<Rightarrow> double \<Rightarrow> double" where
  "Finite a + Finite b = Finite (a + b)"
| "Finite a + NaN = NaN"
| "NaN + b = NaN"

fun minus_double :: "double \<Rightarrow> double \<Rightarrow> double" where
  "Finite a - Finite b = Finite (a - b)"
| "Finite a - NaN = NaN"
| "NaN - b = NaN"

fun times_double :: "double \<Rightarrow> double \<Rightarrow> double" where
  "Finite a * Finite b = Finite (a * b)"
| "Finite a * NaN = NaN"
| "NaN * b = NaN"

fun abs_double :: "double \<Rightarrow> double" where
  "\<bar>Finite a\<bar> = Finite \<bar>a\<bar>"
| "\<bar>NaN\<bar> = NaN"

fun less_double :: "double \<Rightarrow> double \<Rightarrow> bool" where
  "Finite a < Finite b \<longleftrightarrow> a < b"
| "Finite a < NaN \<longleftrightarrow> False"
| "NaN < b \<longleftrightarrow> False"

fun less_eq_double :: "double \<Rightarrow> double \<Rightarrow> bool" where
  "Finite a \<le> Finite b \<longleftrightarrow> a \<le> b"
| "Finite a \<le> NaN \<longleftrightarrow> False"
| "NaN \<le> b \<longleftrightarrow> False"

instance ..

end

text \<open>\<^verbatim>\<open>std::sqrt\<close> on such a scalar.\<close>

fun std_sqrt :: "double \<Rightarrow> double" where
  "std_sqrt (Finite a) = (if a < 0 then NaN else Finite (sqrt a))"
| "std_sqrt NaN = NaN"

text \<open>The linear model \<open>f(x,u) = dfdx dx + dfdu du + f\<close> of a vector-valued function.\<close>

record VectorFunctionLinearApproximation =
  dfdx :: matrix_t
  dfdu :: matrix_t
  f :: vector_t

text \<open>
  The quadratic model of a scalar function. Its fields carry the prefix \<open>q_\<close> because a
  record of this theory cannot share field names with the linear model above.
\<close>

record ScalarFunctionQuadraticApproximation =
  q_dfdxx :: matrix_t
  q_dfdux :: matrix_t
  q_dfduu :: matrix_t
  q_dfdx :: vector_t
  q_dfdu :: vector_t
  q_f :: scalar_t

section \<open>Errors\<close>

text \<open>
  Every exception of the modelled code is a value. \<open>DuplicateTerm\<close> is the
  \<^verbatim>\<open>std::runtime_error\<close> of \<^verbatim>\<open>Collection::add\<close>, \<open>UnknownTerm\<close> the
  \<^verbatim>\<open>std::out_of_range\<close> of \<^verbatim>\<open>termNameMap.at(name)\<close>, \<open>QpFailed\<close> and
  \<open>NoPerformanceLog\<close> the two \<^verbatim>\<open>std::runtime_error\<close>s of the multiple-shooting solver.
  \<open>LengthError\<close> is the \<^verbatim>\<open>std::length_error\<close> of a \<^verbatim>\<open>resize\<close> or \<^verbatim>\<open>reserve\<close>
  to the size \<open>-1\<close>, which an empty time grid leads to.
  \<open>OutOfRange\<close> stands for an unchecked access outside a \<^verbatim>\<open>std::vector\<close>
  (\<^verbatim>\<open>v[i]\<close>, \<^verbatim>\<open>v.front()\<close> or \<^verbatim>\<open>v.back()\<close> of an empty vector), which C++ leaves
  undefined: a function of the model first tests that the accesses of its body are in
  range (its predicate \<open>_inRange\<close>) and returns \<open>OutOfRange\<close> when they are not.
\<close>

datatype error =
  DuplicateTerm string
  | UnknownTerm string
  | QpFailed
  | NoPerformanceLog
  | LengthError
  | OutOfRange

section \<open>Collection (ocs2_core/misc/Collection.h)\<close>

text \<open>
  \<^verbatim>\<open>terms_\<close> holds the terms in insertion order, \<^verbatim>\<open>termNameMap_\<close> maps a name to
  its index in \<^verbatim>\<open>terms_\<close>. A term is an owned object (the \<^verbatim>\<open>unique_ptr\<close> is taken to
  be non-null). Member names lose their trailing underscore, which an Isabelle constant
  cannot end with.
\<close>

record 'a Collection =
  terms :: "'a list"
  termNameMap :: "string \<rightharpoonup> nat"

definition Collection_new :: "'a Collection" where
  "Collection_new = \<lparr>terms = [], termNameMap = Map.empty\<rparr>"

definition empty :: "'a Collection \<Rightarrow> bool" where
  "empty c = (terms c = [])"

text \<open>
  \<^verbatim>\<open>emplace\<close> inserts \<open>name \<mapsto> nextIndex\<close> only when the name is new and reports
  whether it did. \<^verbatim>\<open>add\<close> mutates the collection and may throw: the model returns the
  outcome together with the collection as it is after the call.
\<close>

definition emplace :: "(string \<rightharpoonup> nat) \<Rightarrow> string \<Rightarrow> nat \<Rightarrow> (string \<rightharpoonup> nat) \<times> bool" where
  "emplace m name v = (case m name of None \<Rightarrow> (m(name \<mapsto> v), True) | Some _ \<Rightarrow> (m, False))"

definition add :: "string \<Rightarrow> 'a \<Rightarrow> 'a Collection \<Rightarrow> (error + unit) \<times> 'a Collection" where
  "add name term c =
     (let nextIndex = length (terms c);
          info = emplace (termNameMap c) name nextIndex;
          c1 = c\<lparr>termNameMap := fst info\<rparr>
      in if snd info then (Inr (), c1\<lparr>terms := terms c1 @ [term]\<rparr>)
         else (Inl (DuplicateTerm name), c1))"

definition get :: "'a Collection \<Rightarrow> string \<Rightarrow> error + 'a" where
  "get c name =
     (case termNameMap c name of
        None \<Rightarrow> Inl (UnknownTerm name)
      | Some costIndex \<Rightarrow>
          if costIndex < length (terms c) then Inr (terms c ! costIndex) else Inl OutOfRange)"

text \<open>A collection built by a sequence of \<^verbatim>\<open>add\<close> calls; a failing call is skipped, as a
  caller that catches the exception would continue.\<close>

fun add_all :: "(string \<times> 'a) list \<Rightarrow> 'a Collection \<Rightarrow> 'a Collection" where
  "add_all [] c = c"
| "add_all ((name, term) # rest) c = add_all rest (snd (add name term c))"


section \<open>Data of the multiple-shooting solver\<close>

text \<open>
  Modelled from the spec: \<^verbatim>\<open>PerformanceIndex\<close> (ocs2_oc/oc_solver/PerformanceIndex.h is not
  among the sources). The spec gives the fields and says that the type supports additive
  accumulation; the field names are the ones the solver reads and writes, a
  default-constructed index is zero and \<^verbatim>\<open>+=\<close> adds field by field. The fields are sums
  over the nodes of values of the user's cost and constraint functions, so each of them
  can be NaN.
\<close>

record PerformanceIndex =
  merit :: double
  totalCost :: double
  stateEqConstraintISE :: double
  stateInputEqConstraintISE :: double
  inequalityConstraintISE :: double
  inequalityConstraintPenalty :: double

definition PerformanceIndex_zero :: PerformanceIndex where
  "PerformanceIndex_zero =
     \<lparr>merit = Finite 0, totalCost = Finite 0, stateEqConstraintISE = Finite 0,
      stateInputEqConstraintISE = Finite 0, inequalityConstraintISE = Finite 0,
      inequalityConstraintPenalty = Finite 0\<rparr>"

definition PerformanceIndex_plus :: "PerformanceIndex \<Rightarrow> PerformanceIndex \<Rightarrow> PerformanceIndex" where
  "PerformanceIndex_plus a b =
     \<lparr>merit = merit a + merit b,
      totalCost = totalCost a + totalCost b,
      stateEqConstraintISE = stateEqConstraintISE a + stateEqConstraintISE b,
      stateInputEqConstraintISE = stateInputEqConstraintISE a + stateInputEqConstraintISE b,
      inequalityConstraintISE = inequalityConstraintISE a + inequalityConstraintISE b,
      inequalityConstraintPenalty = inequalityConstraintPenalty a + inequalityConstraintPenalty b\<rparr>"

text \<open>
  Modelled from the spec: \<^verbatim>\<open>AnnotatedTime\<close>, a time with one of the events
  \<^verbatim>\<open>None\<close>, \<^verbatim>\<open>PreEvent\<close>, \<^verbatim>\<open>PostEvent\<close> (the event \<^verbatim>\<open>None\<close> is written
  \<open>None_event\<close>), and \<^verbatim>\<open>ModeSchedule\<close>.
\<close>

datatype Event = None_event | PreEvent | PostEvent

record AnnotatedTime =
  time :: scalar_t
  event :: Event

record ModeSchedule =
  eventTimes :: "scalar_t list"
  modeSequence :: "nat list"

text \<open>
  Modelled from the spec: \<^verbatim>\<open>PrimalSolution\<close> and the controllers (their declarations are
  not among the sources). A primal solution holds the time, state and input trajectories,
  the mode schedule and a controller, which is a feed-forward sequence or an affine
  feedback law; the solver constructs them as \<^verbatim>\<open>FeedforwardController(time, input)\<close> and
  \<^verbatim>\<open>LinearController(time, uff, gain)\<close>. A default-constructed \<^verbatim>\<open>PrimalSolution\<close> has
  empty trajectories and a null controller pointer.
\<close>

datatype Controller =
  LinearController "scalar_t list" vector_array_t matrix_array_t
  | FeedforwardController "scalar_t list" vector_array_t

record PrimalSolution =
  timeTrajectory :: "scalar_t list"
  stateTrajectory :: vector_array_t
  inputTrajectory :: vector_array_t
  modeSchedule :: ModeSchedule
  controllerPtr :: "Controller option"

definition PrimalSolution_new :: PrimalSolution where
  "PrimalSolution_new =
     \<lparr>timeTrajectory = [], stateTrajectory = [], inputTrajectory = [],
      modeSchedule = \<lparr>eventTimes = [], modeSequence = [0]\<rparr>, controllerPtr = None\<rparr>"

text \<open>
  Modelled from the spec: the settings of the SQP solver (the declaration of
  \<^verbatim>\<open>multiple_shooting::Settings\<close> is not among the sources), with the options that the
  modelled code reads. The flags that only select printing, the thread priority, the
  integrator type and the settings of the QP solver are left out.
\<close>

record Settings =
  sqpIteration :: nat
  deltaTol :: scalar_t
  costTol :: scalar_t
  alpha_decay :: scalar_t
  alpha_min :: scalar_t
  gamma_c :: scalar_t
  g_max :: scalar_t
  g_min :: scalar_t
  armijoFactor :: scalar_t
  dt :: scalar_t
  useFeedbackPolicy :: bool
  projectStateInputEqualityConstraints :: bool
  nThreads :: nat

text \<open>The result of \<^verbatim>\<open>getOCPSolution\<close>, with the members the source assigns.\<close>

record OcpSubproblemSolution =
  deltaXSol :: vector_array_t
  deltaUSol :: vector_array_t
  armijoDescentMetric :: scalar_t

text \<open>Modelled from the spec: the status values of the structured QP solver.\<close>

datatype hpipm_status = SUCCESS | MAX_ITER | INFEASIBLE | NUMERICAL_FAILURE

text \<open>
  Of the optimal control problem the solver itself reads only the collection of
  state-input equality constraints; the rest is handed to the transcription functions.
\<close>

record 't OptimalControlProblem =
  equalityConstraintPtr :: "'t Collection"

text \<open>
  The results of \<^verbatim>\<open>multiple_shooting::setupIntermediateNode\<close>, \<^verbatim>\<open>setupEventNode\<close> and
  \<^verbatim>\<open>setupTerminalNode\<close>. The source names the members \<^verbatim>\<open>performance\<close>,
  \<^verbatim>\<open>dynamics\<close>, \<^verbatim>\<open>cost\<close>, \<^verbatim>\<open>constraints\<close> and \<^verbatim>\<open>constraintsProjection\<close> in all
  three; here they carry the suffixes \<open>_i\<close>, \<open>_e\<close> and \<open>_t\<close>.
\<close>

record Transcription =
  performance_i :: PerformanceIndex
  dynamics_i :: VectorFunctionLinearApproximation
  cost_i :: ScalarFunctionQuadraticApproximation
  constraints_i :: VectorFunctionLinearApproximation
  constraintsProjection_i :: VectorFunctionLinearApproximation

record EventTranscription =
  performance_e :: PerformanceIndex
  dynamics_e :: VectorFunctionLinearApproximation
  cost_e :: ScalarFunctionQuadraticApproximation
  constraints_e :: VectorFunctionLinearApproximation

record TerminalTranscription =
  performance_t :: PerformanceIndex
  cost_t :: ScalarFunctionQuadraticApproximation
  constraints_t :: VectorFunctionLinearApproximation

text \<open>
  The collaborators whose code is outside the sources, as functions the solver is given:
  the time discretization, the reference manager's mode schedule, the initialization and
  transcription of a node, the QP solver (with its workspace \<open>'h\<close>, which a solve
  updates and from which the Riccati feedback is read) and the work distribution of the
  thread pool: \<open>schedule i\<close> is the worker whose fetch of the shared counter
  \<^verbatim>\<open>timeIndex\<close> returned \<open>i\<close>.
\<close>

record ('t, 'h) Externals =
  timeDiscretizationWithEvents :: "scalar_t \<Rightarrow> scalar_t \<Rightarrow> scalar_t \<Rightarrow> scalar_t list \<Rightarrow> AnnotatedTime list"
  getIntervalStart :: "AnnotatedTime \<Rightarrow> scalar_t"
  getIntervalEnd :: "AnnotatedTime \<Rightarrow> scalar_t"
  getIntervalDuration :: "AnnotatedTime \<Rightarrow> AnnotatedTime \<Rightarrow> scalar_t"
  getModeSchedule :: ModeSchedule
  initializeEventNode :: "scalar_t \<Rightarrow> vector_t \<Rightarrow> vector_t"
  initializeIntermediateNode_primal ::
    "PrimalSolution \<Rightarrow> scalar_t \<Rightarrow> scalar_t \<Rightarrow> vector_t \<Rightarrow> bool \<Rightarrow> vector_t \<times> vector_t"
  initializeIntermediateNode_initializer ::
    "scalar_t \<Rightarrow> scalar_t \<Rightarrow> vector_t \<Rightarrow> vector_t \<times> vector_t"
  setupEventNode ::
    "'t OptimalControlProblem \<Rightarrow> scalar_t \<Rightarrow> vector_t \<Rightarrow> vector_t \<Rightarrow> EventTranscription"
  setupIntermediateNode ::
    "'t OptimalControlProblem \<Rightarrow> bool \<Rightarrow> scalar_t \<Rightarrow> scalar_t \<Rightarrow> vector_t \<Rightarrow> vector_t \<Rightarrow> vector_t
       \<Rightarrow> Transcription"
  setupTerminalNode :: "'t OptimalControlProblem \<Rightarrow> scalar_t \<Rightarrow> vector_t \<Rightarrow> TerminalTranscription"
  computeEventPerformance ::
    "'t OptimalControlProblem \<Rightarrow> scalar_t \<Rightarrow> vector_t \<Rightarrow> vector_t \<Rightarrow> PerformanceIndex"
  computeIntermediatePerformance ::
    "'t OptimalControlProblem \<Rightarrow> scalar_t \<Rightarrow> scalar_t \<Rightarrow> vector_t \<Rightarrow> vector_t \<Rightarrow> vector_t
       \<Rightarrow> PerformanceIndex"
  computeTerminalPerformance :: "'t OptimalControlProblem \<Rightarrow> scalar_t \<Rightarrow> vector_t \<Rightarrow> PerformanceIndex"
  hpipm_solve ::
    "'h \<Rightarrow> vector_t \<Rightarrow> VectorFunctionLinearApproximation list
       \<Rightarrow> ScalarFunctionQuadraticApproximation list
       \<Rightarrow> VectorFunctionLinearApproximation list option
       \<Rightarrow> hpipm_status \<times> vector_array_t \<times> vector_array_t \<times> 'h"
  getRiccatiFeedback ::
    "'h \<Rightarrow> VectorFunctionLinearApproximation \<Rightarrow> ScalarFunctionQuadraticApproximation \<Rightarrow> matrix_array_t"
  schedule :: "nat \<Rightarrow> nat"

text \<open>The members of \<^verbatim>\<open>MultipleShootingSolver\<close> the modelled code reads or writes (the
  timers are left out).\<close>

record ('t, 'h) MultipleShootingSolver =
  settings :: Settings
  hpipmInterface :: 'h
  ocpDefinitions :: "'t OptimalControlProblem list"
  primalSolution :: PrimalSolution
  performanceIndeces :: "PerformanceIndex list"
  totalNumIterations :: nat
  dynamics :: "VectorFunctionLinearApproximation list"
  cost :: "ScalarFunctionQuadraticApproximation list"
  constraints :: "VectorFunctionLinearApproximation list"
  constraintsProjection :: "VectorFunctionLinearApproximation list"


section \<open>Construction, reset and the iteration log\<close>

text \<open>
  The constructor stores the settings, clones the problem once per worker and switches
  the projection off when the problem has no equality constraints. \<open>workspace\<close> is the
  freshly constructed QP interface.
\<close>

definition MultipleShootingSolver_new ::
  "Settings \<Rightarrow> 't OptimalControlProblem \<Rightarrow> 'h \<Rightarrow> ('t, 'h) MultipleShootingSolver" where
  "MultipleShootingSolver_new stgs optimalControlProblem workspace =
     (let s = \<lparr>settings = stgs, hpipmInterface = workspace,
                ocpDefinitions = replicate (nThreads stgs) optimalControlProblem,
                primalSolution = PrimalSolution_new, performanceIndeces = [],
                totalNumIterations = 0, dynamics = [], cost = [], constraints = [],
                constraintsProjection = []\<rparr>
      in if empty (equalityConstraintPtr optimalControlProblem)
         then s\<lparr>settings := (settings s)\<lparr>projectStateInputEqualityConstraints := False\<rparr>\<rparr>
         else s)"

definition reset :: "('t, 'h) MultipleShootingSolver \<Rightarrow> ('t, 'h) MultipleShootingSolver" where
  "reset s = s\<lparr>primalSolution := PrimalSolution_new, performanceIndeces := [],
               totalNumIterations := 0\<rparr>"

definition getIterationsLog :: "('t, 'h) MultipleShootingSolver \<Rightarrow> error + PerformanceIndex list" where
  "getIterationsLog s =
     (if performanceIndeces s = [] then Inl NoPerformanceLog else Inr (performanceIndeces s))"

section \<open>Filter line search (takeStep)\<close>

definition trajectoryNorm :: "vector_array_t \<Rightarrow> scalar_t" where
  "trajectoryNorm v = sqrt (foldl (\<lambda>norm vi. norm + squaredNorm vi) 0 v)"

definition constraintViolation :: "PerformanceIndex \<Rightarrow> double" where
  "constraintViolation performance =
     std_sqrt (stateEqConstraintISE performance + stateInputEqConstraintISE performance
               + inequalityConstraintISE performance)"

text \<open>
  The lambda \<^verbatim>\<open>stepAccepted\<close> of \<^verbatim>\<open>takeStep\<close>, with the variables it captures as
  arguments. The violations and the merits are scalars that can be NaN; the settings,
  the step length and the descent metric enter as numbers.
\<close>

definition stepAccepted ::
  "Settings \<Rightarrow> PerformanceIndex \<Rightarrow> OcpSubproblemSolution \<Rightarrow> scalar_t \<Rightarrow> PerformanceIndex \<Rightarrow> bool" where
  "stepAccepted stgs baseline subproblemSolution alpha performanceNew =
     (let newConstraintViolation = constraintViolation performanceNew;
          baselineConstraintViolation = constraintViolation baseline
      in if newConstraintViolation > Finite (g_max stgs) then False
         else if newConstraintViolation < Finite (g_min stgs)
                 \<and> baselineConstraintViolation < Finite (g_min stgs)
                 \<and> armijoDescentMetric subproblemSolution < 0
         then merit performanceNew
                < merit baseline
                  + Finite (armijoFactor stgs * alpha * armijoDescentMetric subproblemSolution)
         else merit performanceNew
                < merit baseline - Finite (gamma_c stgs) * baselineConstraintViolation
              \<or> newConstraintViolation
                  < Finite (1 - gamma_c stgs) * baselineConstraintViolation)"

text \<open>
  The candidate of a trial. \<^verbatim>\<open>uNew\<close> is created with empty vectors; an entry whose
  \<^verbatim>\<open>du[i]\<close> is empty (an event node) is never assigned and stays empty.
\<close>

definition xNew_of :: "vector_array_t \<Rightarrow> vector_array_t \<Rightarrow> scalar_t \<Rightarrow> vector_array_t" where
  "xNew_of x dx alpha = map (\<lambda>i. vplus (x ! i) (vscale alpha (dx ! i))) [0..<length x]"

definition uNew_of :: "vector_array_t \<Rightarrow> vector_array_t \<Rightarrow> scalar_t \<Rightarrow> vector_array_t" where
  "uNew_of u du alpha =
     map (\<lambda>i. if length (du ! i) > 0 then vplus (u ! i) (vscale alpha (du ! i)) else [])
       [0..<length u]"

definition stepSizeBelowTol :: "Settings \<Rightarrow> OcpSubproblemSolution \<Rightarrow> scalar_t \<Rightarrow> bool" where
  "stepSizeBelowTol stgs subproblemSolution alpha =
     (alpha * trajectoryNorm (deltaUSol subproblemSolution) < deltaTol stgs
      \<and> alpha * trajectoryNorm (deltaXSol subproblemSolution) < deltaTol stgs)"

definition improvementBelowTol :: "Settings \<Rightarrow> PerformanceIndex \<Rightarrow> PerformanceIndex \<Rightarrow> bool" where
  "improvementBelowTol stgs baseline performanceNew =
     (\<bar>merit baseline - merit performanceNew\<bar> < Finite (costTol stgs)
      \<and> constraintViolation performanceNew < Finite (g_min stgs))"

text \<open>
  The \<^verbatim>\<open>do ... while (alpha > alpha_min)\<close> loop from the trial at \<open>alpha\<close> on. The
  result is the pair the source returns together with the iterate \<open>(x, u)\<close> as the call
  leaves it; \<open>None\<close> is a loop that never ends (for instance \<open>alpha_decay = 1\<close> with
  every trial rejected). \<open>perf\<close> is the performance computation of a candidate.
\<close>

partial_function (option) takeStep_loop ::
  "Settings \<Rightarrow> (vector_array_t \<Rightarrow> vector_array_t \<Rightarrow> error + PerformanceIndex) \<Rightarrow> PerformanceIndex
     \<Rightarrow> OcpSubproblemSolution \<Rightarrow> vector_array_t \<Rightarrow> vector_array_t \<Rightarrow> scalar_t
     \<Rightarrow> (error + bool \<times> PerformanceIndex \<times> vector_array_t \<times> vector_array_t) option" where
  "takeStep_loop stgs perf baseline subproblemSolution x u alpha =
     (let uNew = uNew_of u (deltaUSol subproblemSolution) alpha;
          xNew = xNew_of x (deltaXSol subproblemSolution) alpha
      in case perf xNew uNew of
           Inl e \<Rightarrow> Some (Inl e)
         | Inr performanceNew \<Rightarrow>
             if stepAccepted stgs baseline subproblemSolution alpha performanceNew
             then Some (Inr (stepSizeBelowTol stgs subproblemSolution alpha
                               \<or> improvementBelowTol stgs baseline performanceNew,
                             performanceNew, xNew, uNew))
             else if stepSizeBelowTol stgs subproblemSolution alpha
             then Some (Inr (True, baseline, x, u))
             else if alpha * alpha_decay stgs > alpha_min stgs
             then takeStep_loop stgs perf baseline subproblemSolution x u (alpha * alpha_decay stgs)
             else Some (Inr (True, baseline, x, u)))"


text \<open>The trial at \<open>alpha\<close> takes the last branch of the loop body: the candidate is
  rejected, the step is not below the tolerance, and the loop goes on with
  \<open>alpha * alpha_decay\<close>.\<close>

definition trialContinues ::
  "Settings \<Rightarrow> (vector_array_t \<Rightarrow> vector_array_t \<Rightarrow> error + PerformanceIndex) \<Rightarrow> PerformanceIndex
     \<Rightarrow> OcpSubproblemSolution \<Rightarrow> vector_array_t \<Rightarrow> vector_array_t \<Rightarrow> scalar_t \<Rightarrow> bool" where
  "trialContinues stgs perf baseline subproblemSolution x u alpha =
     (case perf (xNew_of x (deltaXSol subproblemSolution) alpha)
             (uNew_of u (deltaUSol subproblemSolution) alpha) of
        Inl e \<Rightarrow> False
      | Inr performanceNew \<Rightarrow>
          \<not> stepAccepted stgs baseline subproblemSolution alpha performanceNew
          \<and> \<not> stepSizeBelowTol stgs subproblemSolution alpha
          \<and> alpha_min stgs < alpha * alpha_decay stgs)"

text \<open>
  \<^verbatim>\<open>takeStep\<close> reads \<^verbatim>\<open>du[i]\<close> for every index of \<^verbatim>\<open>u\<close> and \<^verbatim>\<open>dx[i]\<close> for every index
  of \<^verbatim>\<open>x\<close>, unchecked.
\<close>

definition takeStep_inRange :: "OcpSubproblemSolution \<Rightarrow> vector_array_t \<Rightarrow> vector_array_t \<Rightarrow> bool" where
  "takeStep_inRange subproblemSolution x u =
     (length u \<le> length (deltaUSol subproblemSolution)
      \<and> length x \<le> length (deltaXSol subproblemSolution))"

section \<open>The sweeps over the nodes\<close>

text \<open>
  Both sweeps hand the node indices \<open>0..N\<close> to the workers through the shared counter.
  Worker \<open>w\<close> uses its own clone \<^verbatim>\<open>ocpDefinitions_[w]\<close>, adds the performance of the nodes
  it claimed to a local index and adds that to \<^verbatim>\<open>performance[w]\<close>. The unchecked
  accesses of a sweep are in range when there is a worker, every worker has its clone,
  \<^verbatim>\<open>x\<close> is not empty and has an entry for every node, and \<^verbatim>\<open>u\<close> has one for every node
  before the last that is not a pre-event node.
\<close>

definition sweep_inRange ::
  "('t, 'h) Externals \<Rightarrow> ('t, 'h) MultipleShootingSolver \<Rightarrow> AnnotatedTime list
     \<Rightarrow> vector_array_t \<Rightarrow> vector_array_t \<Rightarrow> bool" where
  "sweep_inRange ext s timeDiscretization x u =
     (0 < nThreads (settings s)
      \<and> nThreads (settings s) \<le> length (ocpDefinitions s)
      \<and> list_all (\<lambda>i. schedule ext i < nThreads (settings s)) [0..<length timeDiscretization]
      \<and> x \<noteq> [] \<and> length timeDiscretization \<le> length x
      \<and> list_all (\<lambda>i. event (timeDiscretization ! i) = PreEvent \<or> i < length u)
           [0..<length timeDiscretization - 1])"

definition VectorFunctionLinearApproximation_Zero ::
  "nat \<Rightarrow> nat \<Rightarrow> nat \<Rightarrow> VectorFunctionLinearApproximation" where
  "VectorFunctionLinearApproximation_Zero nv nx nu =
     \<lparr>dfdx = replicate nv (replicate nx 0), dfdu = replicate nv (replicate nu 0),
      f = replicate nv 0\<rparr>"

text \<open>What \<^verbatim>\<open>setupQuadraticSubproblem\<close> stores for a node \<open>i < N\<close>: the transcription of an
  event node, with the empty projection, or of an intermediate node.\<close>

definition setupNode ::
  "('t, 'h) Externals \<Rightarrow> 't OptimalControlProblem \<Rightarrow> bool \<Rightarrow> AnnotatedTime list
     \<Rightarrow> vector_array_t \<Rightarrow> vector_array_t \<Rightarrow> nat \<Rightarrow> Transcription" where
  "setupNode ext ocpDefinition projection timeDiscretization x u i =
     (if event (timeDiscretization ! i) = PreEvent
      then (let result = setupEventNode ext ocpDefinition (time (timeDiscretization ! i))
                           (x ! i) (x ! (i + 1))
            in \<lparr>performance_i = performance_e result, dynamics_i = dynamics_e result,
                cost_i = cost_e result, constraints_i = constraints_e result,
                constraintsProjection_i =
                  VectorFunctionLinearApproximation_Zero 0 (length (x ! i)) 0\<rparr>)
      else (let ti = getIntervalStart ext (timeDiscretization ! i);
                duration = getIntervalDuration ext (timeDiscretization ! i)
                             (timeDiscretization ! (i + 1))
            in setupIntermediateNode ext ocpDefinition projection ti duration
                 (x ! i) (x ! (i + 1)) (u ! i)))"

definition setupQuadraticSubproblem ::
  "('t, 'h) Externals \<Rightarrow> ('t, 'h) MultipleShootingSolver \<Rightarrow> AnnotatedTime list \<Rightarrow> vector_t
     \<Rightarrow> vector_array_t \<Rightarrow> vector_array_t
     \<Rightarrow> error + PerformanceIndex \<times> ('t, 'h) MultipleShootingSolver" where
  "setupQuadraticSubproblem ext s timeDiscretization initState x u =
     (if timeDiscretization = [] then Inl LengthError
      else if \<not> sweep_inRange ext s timeDiscretization x u then Inl OutOfRange
      else
        let N = length timeDiscretization - 1;
            projection = projectStateInputEqualityConstraints (settings s);
            node = (\<lambda>i. setupNode ext (ocpDefinitions s ! schedule ext i) projection
                           timeDiscretization x u i);
            terminal = setupTerminalNode ext (ocpDefinitions s ! schedule ext N)
                         (getIntervalStart ext (timeDiscretization ! N)) (x ! N);
            nodePerformance = (\<lambda>i. if i < N then performance_i (node i)
                                     else performance_t terminal);
            performance =
              map (\<lambda>workerId.
                     PerformanceIndex_plus PerformanceIndex_zero
                       (foldl (\<lambda>workerPerformance i.
                                 PerformanceIndex_plus workerPerformance (nodePerformance i))
                          PerformanceIndex_zero
                          (filter (\<lambda>i. schedule ext i = workerId)
                             [0..<length timeDiscretization])))
                [0..<nThreads (settings s)];
            front = (hd performance)
                      \<lparr>stateEqConstraintISE := stateEqConstraintISE (hd performance)
                         + Finite (squaredNorm (vminus initState (hd x)))\<rparr>;
            totalPerformance = foldl PerformanceIndex_plus front (tl performance)
        in Inr (totalPerformance
                  \<lparr>merit := totalCost totalPerformance
                     + inequalityConstraintPenalty totalPerformance\<rparr>,
                s\<lparr>dynamics := map (\<lambda>i. dynamics_i (node i)) [0..<N],
                  cost := map (\<lambda>i. cost_i (node i)) [0..<N] @ [cost_t terminal],
                  constraints := map (\<lambda>i. constraints_i (node i)) [0..<N]
                                   @ [constraints_t terminal],
                  constraintsProjection :=
                    map (\<lambda>i. constraintsProjection_i (node i)) [0..<N]\<rparr>))"

definition computeNodePerformance ::
  "('t, 'h) Externals \<Rightarrow> 't OptimalControlProblem \<Rightarrow> AnnotatedTime list
     \<Rightarrow> vector_array_t \<Rightarrow> vector_array_t \<Rightarrow> nat \<Rightarrow> PerformanceIndex" where
  "computeNodePerformance ext ocpDefinition timeDiscretization x u i =
     (let N = length timeDiscretization - 1
      in if i < N
         then if event (timeDiscretization ! i) = PreEvent
              then computeEventPerformance ext ocpDefinition (time (timeDiscretization ! i))
                     (x ! i) (x ! (i + 1))
              else (let ti = getIntervalStart ext (timeDiscretization ! i);
                        duration = getIntervalDuration ext (timeDiscretization ! i)
                                     (timeDiscretization ! (i + 1))
                    in computeIntermediatePerformance ext ocpDefinition ti duration
                         (x ! i) (x ! (i + 1)) (u ! i))
         else (let tN = getIntervalStart ext (timeDiscretization ! N)
               in computeTerminalPerformance ext ocpDefinition tN (x ! N)))"

definition computePerformance ::
  "('t, 'h) Externals \<Rightarrow> ('t, 'h) MultipleShootingSolver \<Rightarrow> AnnotatedTime list \<Rightarrow> vector_t
     \<Rightarrow> vector_array_t \<Rightarrow> vector_array_t \<Rightarrow> error + PerformanceIndex" where
  "computePerformance ext s timeDiscretization initState x u =
     (if \<not> sweep_inRange ext s timeDiscretization x u then Inl OutOfRange
      else
        let performance =
              map (\<lambda>workerId.
                     PerformanceIndex_plus PerformanceIndex_zero
                       (foldl (\<lambda>workerPerformance i.
                                 PerformanceIndex_plus workerPerformance
                                   (computeNodePerformance ext (ocpDefinitions s ! workerId)
                                      timeDiscretization x u i))
                          PerformanceIndex_zero
                          (filter (\<lambda>i. schedule ext i = workerId)
                             [0..<length timeDiscretization])))
                [0..<nThreads (settings s)];
            front = (hd performance)
                      \<lparr>stateEqConstraintISE := stateEqConstraintISE (hd performance)
                         + Finite (squaredNorm (vminus initState (hd x)))\<rparr>;
            totalPerformance = foldl PerformanceIndex_plus front (tl performance)
        in Inr (totalPerformance
                  \<lparr>merit := totalCost totalPerformance
                     + inequalityConstraintPenalty totalPerformance\<rparr>))"

definition takeStep ::
  "('t, 'h) Externals \<Rightarrow> ('t, 'h) MultipleShootingSolver \<Rightarrow> PerformanceIndex
     \<Rightarrow> AnnotatedTime list \<Rightarrow> vector_t \<Rightarrow> OcpSubproblemSolution
     \<Rightarrow> vector_array_t \<Rightarrow> vector_array_t
     \<Rightarrow> (error + bool \<times> PerformanceIndex \<times> vector_array_t \<times> vector_array_t) option" where
  "takeStep ext s baseline timeDiscretization initState subproblemSolution x u =
     (if \<not> takeStep_inRange subproblemSolution x u then Some (Inl OutOfRange)
      else takeStep_loop (settings s) (computePerformance ext s timeDiscretization initState)
             baseline subproblemSolution x u 1)"


section \<open>The QP step (getOCPSolution)\<close>

text \<open>
  The accesses after the solve: \<^verbatim>\<open>deltaXSol[i]\<close> and \<^verbatim>\<open>deltaUSol[i]\<close> for a node whose
  cost gradient is not empty and, with the projection,
  \<^verbatim>\<open>constraintsProjection_[i]\<close> for every index of \<^verbatim>\<open>deltaUSol\<close>.
\<close>

definition getOCPSolution_inRange ::
  "('t, 'h) MultipleShootingSolver \<Rightarrow> vector_array_t \<Rightarrow> vector_array_t \<Rightarrow> bool" where
  "getOCPSolution_inRange s dXSol dUSol =
     (list_all (\<lambda>i. (length (q_dfdx (cost s ! i)) > 0 \<longrightarrow> i < length dXSol)
                   \<and> (length (q_dfdu (cost s ! i)) > 0 \<longrightarrow> i < length dUSol))
        [0..<length (cost s)]
      \<and> (projectStateInputEqualityConstraints (settings s) \<longrightarrow>
           list_all (\<lambda>i. i < length (constraintsProjection s)
                         \<and> (length (f (constraintsProjection s ! i)) > 0 \<longrightarrow> i < length dXSol))
             [0..<length dUSol]))"

definition getOCPSolution ::
  "('t, 'h) Externals \<Rightarrow> ('t, 'h) MultipleShootingSolver \<Rightarrow> vector_t
     \<Rightarrow> error + OcpSubproblemSolution \<times> ('t, 'h) MultipleShootingSolver" where
  "getOCPSolution ext s delta_x0 =
     (if ocpDefinitions s = [] then Inl OutOfRange
      else
        let hasStateInputConstraints = \<not> empty (equalityConstraintPtr (hd (ocpDefinitions s)));
            (status, dXSol, dUSol, workspace) =
              (if hasStateInputConstraints
                  \<and> \<not> projectStateInputEqualityConstraints (settings s)
               then hpipm_solve ext (hpipmInterface s) delta_x0 (dynamics s) (cost s)
                      (Some (constraints s))
               else hpipm_solve ext (hpipmInterface s) delta_x0 (dynamics s) (cost s) None)
        in if status \<noteq> SUCCESS then Inl QpFailed
           else if \<not> getOCPSolution_inRange s dXSol dUSol then Inl OutOfRange
           else
             Inr (\<lparr>deltaXSol = dXSol,
                   deltaUSol =
                     (if projectStateInputEqualityConstraints (settings s)
                      then map (\<lambda>i. if length (f (constraintsProjection s ! i)) > 0
                                     then vplus
                                            (vplus (mat_vec (dfdu (constraintsProjection s ! i))
                                                      (dUSol ! i))
                                               (f (constraintsProjection s ! i)))
                                            (mat_vec (dfdx (constraintsProjection s ! i))
                                               (dXSol ! i))
                                     else dUSol ! i)
                             [0..<length dUSol]
                      else dUSol),
                   armijoDescentMetric =
                     foldl (\<lambda>metric i.
                              let metric1 =
                                    (if length (q_dfdx (cost s ! i)) > 0
                                     then metric + dot (q_dfdx (cost s ! i)) (dXSol ! i)
                                     else metric)
                              in if length (q_dfdu (cost s ! i)) > 0
                                 then metric1 + dot (q_dfdu (cost s ! i)) (dUSol ! i)
                                 else metric1)
                       0 [0..<length (cost s)]\<rparr>,
                  s\<lparr>hpipmInterface := workspace\<rparr>))"

section \<open>Initialization of the iterate\<close>

text \<open>The body of the loop of \<^verbatim>\<open>initializeStateInputTrajectories\<close> at the node \<open>i\<close>, on the
  pair \<^verbatim>\<open>(stateTrajectory, inputTrajectory)\<close>.\<close>

definition initializeNode ::
  "('t, 'h) Externals \<Rightarrow> ('t, 'h) MultipleShootingSolver \<Rightarrow> AnnotatedTime list \<Rightarrow> scalar_t
     \<Rightarrow> vector_array_t \<times> vector_array_t \<Rightarrow> nat \<Rightarrow> vector_array_t \<times> vector_array_t" where
  "initializeNode ext s timeDiscretization interpolateTill =
     (\<lambda>(stateTrajectory, inputTrajectory) i.
        if event (timeDiscretization ! i) = PreEvent
        then (stateTrajectory
                @ [initializeEventNode ext (time (timeDiscretization ! i))
                     (last stateTrajectory)],
              inputTrajectory @ [[]])
        else
          let t = getIntervalStart ext (timeDiscretization ! i);
              nextTime = getIntervalEnd ext (timeDiscretization ! (i + 1));
              (input, nextState) =
                (if t < interpolateTill
                 then initializeIntermediateNode_primal ext (primalSolution s)
                        t nextTime (last stateTrajectory) (i = 0)
                 else initializeIntermediateNode_initializer ext
                        t nextTime (last stateTrajectory))
          in (stateTrajectory @ [nextState], inputTrajectory @ [input]))"

definition initializeStateInputTrajectories ::
  "('t, 'h) Externals \<Rightarrow> ('t, 'h) MultipleShootingSolver \<Rightarrow> vector_t \<Rightarrow> AnnotatedTime list
     \<Rightarrow> error + vector_array_t \<times> vector_array_t" where
  "initializeStateInputTrajectories ext s initState timeDiscretization =
     (if timeDiscretization = [] then Inl LengthError
      else if totalNumIterations s > 0 \<and> timeTrajectory (primalSolution s) = []
      then Inl OutOfRange
      else
        let N = length timeDiscretization - 1;
            interpolateTill =
              (if totalNumIterations s > 0 then last (timeTrajectory (primalSolution s))
               else time (hd timeDiscretization))
        in Inr (foldl (initializeNode ext s timeDiscretization interpolateTill)
                  ([initState], []) [0..<N]))"

section \<open>The primal solution (setPrimalSolution)\<close>

text \<open>
  The unchecked accesses of \<^verbatim>\<open>setPrimalSolution\<close>: \<^verbatim>\<open>u[i]\<close> at every pre-event node
  \<open>i > 0\<close> of the grid, \<^verbatim>\<open>u.back()\<close>, and with the feedback policy \<^verbatim>\<open>dynamics_[0]\<close>,
  \<^verbatim>\<open>cost_[0]\<close>, for every \<open>i\<close> with \<open>i + 1 < time.size()\<close> the entry \<^verbatim>\<open>uff[i]\<close> and,
  off the pre-event nodes \<open>i > 0\<close>, \<^verbatim>\<open>constraintsProjection_[i]\<close>, \<^verbatim>\<open>KMatrices[i]\<close> and
  \<^verbatim>\<open>x[i]\<close>, and at the end \<^verbatim>\<open>controllerGain.back()\<close>, which needs one pass of the loop.
\<close>

definition setPrimalSolution_inRange ::
  "('t, 'h) MultipleShootingSolver \<Rightarrow> matrix_array_t \<Rightarrow> AnnotatedTime list
     \<Rightarrow> vector_array_t \<Rightarrow> vector_array_t \<Rightarrow> bool" where
  "setPrimalSolution_inRange s KMatrices timeDiscretization x u =
     (list_all (\<lambda>i. event (timeDiscretization ! i) = PreEvent \<and> i > 0 \<longrightarrow> i < length u)
        [0..<length timeDiscretization]
      \<and> u \<noteq> []
      \<and> (useFeedbackPolicy (settings s) \<longrightarrow>
           dynamics s \<noteq> [] \<and> cost s \<noteq> [] \<and> 2 \<le> length timeDiscretization
           \<and> list_all (\<lambda>i. i < length u
                           \<and> (event (timeDiscretization ! i) = PreEvent \<and> i > 0
                              \<or> i < length (constraintsProjection s) \<and> i < length KMatrices
                                \<and> i < length x))
               [0..<length timeDiscretization - 1]))"

text \<open>The first loop: a pre-event node takes the input of the node before it.\<close>

definition correctPreEvents :: "AnnotatedTime list \<Rightarrow> vector_array_t \<Rightarrow> vector_array_t" where
  "correctPreEvents timeDiscretization u =
     foldl (\<lambda>u i. if event (timeDiscretization ! i) = PreEvent \<and> i > 0
                   then u[i := u ! (i - 1)] else u)
       u [0..<length timeDiscretization]"

text \<open>
  The feedback loop over the nodes \<open>i\<close> with \<open>i + 1 < time.size()\<close>, on the pair
  \<^verbatim>\<open>(uff, controllerGain)\<close>.
\<close>

definition feedbackLoop ::
  "VectorFunctionLinearApproximation list \<Rightarrow> matrix_array_t \<Rightarrow> AnnotatedTime list
     \<Rightarrow> vector_array_t \<Rightarrow> vector_array_t \<Rightarrow> vector_array_t \<times> matrix_array_t" where
  "feedbackLoop projections KMatrices timeDiscretization x u =
     foldl (\<lambda>(uff, controllerGain) i.
              if event (timeDiscretization ! i) = PreEvent \<and> i > 0
              then (uff[i := uff ! (i - 1)], controllerGain @ [last controllerGain])
              else
                let gain =
                      (if length (f (projections ! i)) > 0
                       then mat_add_product (dfdx (projections ! i)) (dfdu (projections ! i))
                              (KMatrices ! i)
                       else KMatrices ! i)
                in (uff[i := vminus (uff ! i) (mat_vec gain (x ! i))], controllerGain @ [gain]))
       (u, []) [0..<length timeDiscretization - 1]"

text \<open>
  \<^verbatim>\<open>setPrimalSolution\<close>. With the feedback policy the \<^verbatim>\<open>dfdx\<close> of a projection that
  entered a gain has been moved out of \<^verbatim>\<open>constraintsProjection_\<close> and is left empty.
\<close>

definition setPrimalSolution ::
  "('t, 'h) Externals \<Rightarrow> ('t, 'h) MultipleShootingSolver \<Rightarrow> AnnotatedTime list
     \<Rightarrow> vector_array_t \<Rightarrow> vector_array_t \<Rightarrow> error + ('t, 'h) MultipleShootingSolver" where
  "setPrimalSolution ext s timeDiscretization x u =
     (let KMatrices = getRiccatiFeedback ext (hpipmInterface s) (hd (dynamics s)) (hd (cost s))
      in if \<not> setPrimalSolution_inRange s KMatrices timeDiscretization x u then Inl OutOfRange
         else
           let u1 = correctPreEvents timeDiscretization u;
               (uff, controllerGain) =
                 feedbackLoop (constraintsProjection s) KMatrices timeDiscretization x u1;
               inputs = u1 @ [last u1];
               times = map time timeDiscretization
           in Inr (s\<lparr>primalSolution :=
                       \<lparr>timeTrajectory = times, stateTrajectory = x, inputTrajectory = inputs,
                        modeSchedule = getModeSchedule ext,
                        controllerPtr =
                          Some (if useFeedbackPolicy (settings s)
                                then LinearController times (uff @ [last uff])
                                       (controllerGain @ [last controllerGain])
                                else FeedforwardController times inputs)\<rparr>,
                     constraintsProjection :=
                       (if useFeedbackPolicy (settings s)
                        then map (\<lambda>i. if i + 1 < length timeDiscretization
                                          \<and> \<not> (event (timeDiscretization ! i) = PreEvent \<and> i > 0)
                                          \<and> length (f (constraintsProjection s ! i)) > 0
                                       then (constraintsProjection s ! i)\<lparr>dfdx := []\<rparr>
                                       else constraintsProjection s ! i)
                               [0..<length (constraintsProjection s)]
                        else constraintsProjection s)\<rparr>))"

section \<open>The SQP iterations (runImpl)\<close>

text \<open>
  The \<^verbatim>\<open>for\<close> loop of \<^verbatim>\<open>runImpl\<close> with \<open>n\<close> iterations left: approximate, solve the QP,
  take the step, log its performance, stop when converged. An exception ends the run; a
  line search that never returns makes the run \<open>None\<close>.
\<close>

fun sqpIterations ::
  "('t, 'h) Externals \<Rightarrow> AnnotatedTime list \<Rightarrow> vector_t \<Rightarrow> nat
     \<Rightarrow> ('t, 'h) MultipleShootingSolver \<Rightarrow> vector_array_t \<Rightarrow> vector_array_t
     \<Rightarrow> (error + ('t, 'h) MultipleShootingSolver \<times> vector_array_t \<times> vector_array_t) option" where
  "sqpIterations ext timeDiscretization initState 0 s x u = Some (Inr (s, x, u))"
| "sqpIterations ext timeDiscretization initState (Suc n) s x u =
     (case setupQuadraticSubproblem ext s timeDiscretization initState x u of
        Inl e \<Rightarrow> Some (Inl e)
      | Inr (baselinePerformance, s1) \<Rightarrow>
          (case getOCPSolution ext s1 (vminus initState (x ! 0)) of
             Inl e \<Rightarrow> Some (Inl e)
           | Inr (deltaSolution, s2) \<Rightarrow>
               (case takeStep ext s2 baselinePerformance timeDiscretization initState
                       deltaSolution x u of
                  None \<Rightarrow> None
                | Some (Inl e) \<Rightarrow> Some (Inl e)
                | Some (Inr (converged, stepPerformance, x1, u1)) \<Rightarrow>
                    (let s3 = s2\<lparr>performanceIndeces := performanceIndeces s2 @ [stepPerformance],
                                 totalNumIterations := totalNumIterations s2 + 1\<rparr>
                     in if converged then Some (Inr (s3, x1, u1))
                        else sqpIterations ext timeDiscretization initState n s3 x1 u1))))"

definition runImpl ::
  "('t, 'h) Externals \<Rightarrow> ('t, 'h) MultipleShootingSolver \<Rightarrow> scalar_t \<Rightarrow> vector_t \<Rightarrow> scalar_t
     \<Rightarrow> scalar_t list \<Rightarrow> (error + ('t, 'h) MultipleShootingSolver) option" where
  "runImpl ext s initTime initState finalTime partitioningTimes =
     (let timeDiscretization =
            timeDiscretizationWithEvents ext initTime finalTime (dt (settings s))
              (eventTimes (getModeSchedule ext))
      in case initializeStateInputTrajectories ext s initState timeDiscretization of
           Inl e \<Rightarrow> Some (Inl e)
         | Inr (x, u) \<Rightarrow>
             (case sqpIterations ext timeDiscretization initState (sqpIteration (settings s))
                     (s\<lparr>performanceIndeces := []\<rparr>) x u of
                None \<Rightarrow> None
              | Some (Inl e) \<Rightarrow> Some (Inl e)
              | Some (Inr (s1, x1, u1)) \<Rightarrow> Some (setPrimalSolution ext s1 timeDiscretization x1 u1)))"


section \<open>The claims of the specification, in its own words\<close>


text \<open>
  The convergence test as the specification words it: converged when the accepted step
  changes the merit by less than \<open>costTol\<close> with a violation below \<open>g_min\<close>, or when
  \<open>\<alpha>\<parallel>\<delta>u\<parallel> + \<alpha>\<parallel>\<delta>x\<parallel> < deltaTol\<close>.
\<close>

definition converged_as_specified ::
  "Settings \<Rightarrow> PerformanceIndex \<Rightarrow> OcpSubproblemSolution \<Rightarrow> scalar_t \<Rightarrow> bool
     \<Rightarrow> PerformanceIndex \<Rightarrow> bool" where
  "converged_as_specified stgs baseline sol alpha accepted performanceNew =
     (accepted \<and> \<bar>merit baseline - merit performanceNew\<bar> < Finite (costTol stgs)
        \<and> constraintViolation performanceNew < Finite (g_min stgs)
      \<or> alpha * trajectoryNorm (deltaUSol sol) + alpha * trajectoryNorm (deltaXSol sol)
          < deltaTol stgs)"

text \<open>
  The Armijo descent metric as the specification words it, \<open>\<Sum>\<^sub>i (\<nabla>\<^sub>x C\<^sub>i \<cdot> \<delta>x\<^sub>i + \<nabla>\<^sub>u C\<^sub>i \<cdot> \<delta>u\<^sub>i)\<close>,
  for given steps \<open>\<delta>x\<close> and \<open>\<delta>u\<close>.
\<close>

definition descentMetric_as_specified ::
  "ScalarFunctionQuadraticApproximation list \<Rightarrow> vector_array_t \<Rightarrow> vector_array_t \<Rightarrow> scalar_t" where
  "descentMetric_as_specified costs dx du =
     (\<Sum>i<length costs. dot (q_dfdx (costs ! i)) (dx ! i) + dot (q_dfdu (costs ! i)) (du ! i))"

section \<open>A concrete problem\<close>

text \<open>
  A problem with one state and one input on the grid \<open>0, 1 (pre-event), 1 (post-event), 2\<close>,
  one worker, an equality constraint that is projected, and a QP solver that returns a
  fixed step. It instantiates the theorems below.
\<close>

definition example_settings :: Settings where
  "example_settings =
     \<lparr>sqpIteration = 2, deltaTol = 3/2, costTol = 1/1000, alpha_decay = 1/2, alpha_min = 1/5,
      gamma_c = 1/10, g_max = 1, g_min = 1/2, armijoFactor = 1/10, dt = 1,
      useFeedbackPolicy = True, projectStateInputEqualityConstraints = True, nThreads = 1\<rparr>"

definition example_step :: OcpSubproblemSolution where
  "example_step = \<lparr>deltaXSol = [[1], [0]], deltaUSol = [[1]], armijoDescentMetric = - 1\<rparr>"

definition example_performance :: "scalar_t \<Rightarrow> scalar_t \<Rightarrow> PerformanceIndex" where
  "example_performance m ise =
     \<lparr>merit = Finite m, totalCost = Finite m, stateEqConstraintISE = Finite ise,
      stateInputEqConstraintISE = Finite 0, inequalityConstraintISE = Finite 0,
      inequalityConstraintPenalty = Finite 0\<rparr>"

definition example_grid :: "AnnotatedTime list" where
  "example_grid =
     [\<lparr>time = 0, event = None_event\<rparr>, \<lparr>time = 1, event = PreEvent\<rparr>,
      \<lparr>time = 1, event = PostEvent\<rparr>, \<lparr>time = 2, event = None_event\<rparr>]"

definition example_problem :: "unit OptimalControlProblem" where
  "example_problem = \<lparr>equalityConstraintPtr = snd (add ''radial'' () Collection_new)\<rparr>"

definition example_cost :: "vector_t \<Rightarrow> vector_t \<Rightarrow> ScalarFunctionQuadraticApproximation" where
  "example_cost gx gu =
     \<lparr>q_dfdxx = [[1]], q_dfdux = [], q_dfduu = [], q_dfdx = gx, q_dfdu = gu, q_f = 0\<rparr>"

definition example_projection :: VectorFunctionLinearApproximation where
  "example_projection = \<lparr>dfdx = [[0]], dfdu = [[1]], f = [1]\<rparr>"

definition example_ext :: "(unit, unit) Externals" where
  "example_ext =
     \<lparr>timeDiscretizationWithEvents = (\<lambda>initTime finalTime step events. example_grid),
      getIntervalStart = time,
      getIntervalEnd = time,
      getIntervalDuration = (\<lambda>a b. time b - time a),
      getModeSchedule = \<lparr>eventTimes = [1], modeSequence = [0, 1]\<rparr>,
      initializeEventNode = (\<lambda>t x. x),
      initializeIntermediateNode_primal = (\<lambda>solution t nextTime x useController. ([0], x)),
      initializeIntermediateNode_initializer = (\<lambda>t nextTime x. ([0], x)),
      setupEventNode = (\<lambda>ocp t x xNext.
         \<lparr>performance_e = PerformanceIndex_zero,
          dynamics_e = VectorFunctionLinearApproximation_Zero 1 1 0,
          cost_e = example_cost [0] [],
          constraints_e = VectorFunctionLinearApproximation_Zero 0 1 0\<rparr>),
      setupIntermediateNode = (\<lambda>ocp projection t duration x xNext u.
         \<lparr>performance_i = PerformanceIndex_zero,
          dynamics_i = VectorFunctionLinearApproximation_Zero 1 1 1,
          cost_i = example_cost [0] [1],
          constraints_i = VectorFunctionLinearApproximation_Zero 1 1 1,
          constraintsProjection_i =
            (if projection then example_projection
             else VectorFunctionLinearApproximation_Zero 0 1 1)\<rparr>),
      setupTerminalNode = (\<lambda>ocp t x.
         \<lparr>performance_t = PerformanceIndex_zero, cost_t = example_cost [0] [],
          constraints_t = VectorFunctionLinearApproximation_Zero 0 1 0\<rparr>),
      computeEventPerformance = (\<lambda>ocp t x xNext. PerformanceIndex_zero),
      computeIntermediatePerformance = (\<lambda>ocp t duration x xNext u. PerformanceIndex_zero),
      computeTerminalPerformance = (\<lambda>ocp t x. PerformanceIndex_zero),
      hpipm_solve = (\<lambda>workspace delta_x0 dyn costs constr.
         (SUCCESS, [[0], [0], [0], [0]], [[0], [], [- 1]], workspace)),
      getRiccatiFeedback = (\<lambda>workspace dyn c. [[[1]], [[2]], [[3]]]),
      schedule = (\<lambda>i. 0)\<rparr>"

definition example_solver :: "(unit, unit) MultipleShootingSolver" where
  "example_solver = MultipleShootingSolver_new example_settings example_problem ()"

text \<open>The solver after the approximation sweep at the iterate \<open>x = u = 0\<close>.\<close>

definition example_solver_lq :: "(unit, unit) MultipleShootingSolver" where
  "example_solver_lq =
     example_solver
       \<lparr>dynamics := [VectorFunctionLinearApproximation_Zero 1 1 1,
                     VectorFunctionLinearApproximation_Zero 1 1 0,
                     VectorFunctionLinearApproximation_Zero 1 1 1],
        cost := [example_cost [0] [1], example_cost [0] [], example_cost [0] [1],
                 example_cost [0] []],
        constraints := [VectorFunctionLinearApproximation_Zero 1 1 1,
                        VectorFunctionLinearApproximation_Zero 0 1 0,
                        VectorFunctionLinearApproximation_Zero 1 1 1,
                        VectorFunctionLinearApproximation_Zero 0 1 0],
        constraintsProjection := [example_projection,
                                  VectorFunctionLinearApproximation_Zero 0 1 0,
                                  example_projection]\<rparr>"

text \<open>A solver with a small \<open>deltaTol\<close> and a step whose candidates are all rejected.\<close>

definition example_stalling_solver :: "(unit, unit) MultipleShootingSolver" where
  "example_stalling_solver = example_solver\<lparr>settings := example_settings\<lparr>deltaTol := 1/100\<rparr>\<rparr>"

definition example_long_step :: OcpSubproblemSolution where
  "example_long_step =
     \<lparr>deltaXSol = [[0], [0], [0], [0]], deltaUSol = [[1], [], [0]], armijoDescentMetric = - 1\<rparr>"


definition example_nan_performance :: PerformanceIndex where
  "example_nan_performance =
     \<lparr>merit = Finite (- 1), totalCost = Finite (- 1), stateEqConstraintISE = Finite 0,
      stateInputEqConstraintISE = NaN, inequalityConstraintISE = Finite 0,
      inequalityConstraintPenalty = Finite 0\<rparr>"

text \<open>A step that leaves the initial state: the first state moves by \<open>2 \<alpha>\<close>.\<close>

definition example_far_step :: OcpSubproblemSolution where
  "example_far_step =
     \<lparr>deltaXSol = [[2], [0], [0], [0]], deltaUSol = [[0], [], [0]], armijoDescentMetric = - 1\<rparr>"

text \<open>The solver after a run from the initial state \<open>0\<close>: one iteration, whose line search
  stalls at the first trial.\<close>

definition example_solved :: "(unit, unit) MultipleShootingSolver" where
  "example_solved =
     example_solver_lq
       \<lparr>performanceIndeces := [example_performance 0 0],
        totalNumIterations := 1,
        primalSolution :=
          \<lparr>timeTrajectory = [0, 1, 1, 2],
           stateTrajectory = [[0], [0], [0], [0]],
           inputTrajectory = [[0], [0], [0], [0]],
           modeSchedule = \<lparr>eventTimes = [1], modeSequence = [0, 1]\<rparr>,
           controllerPtr =
             Some (LinearController [0, 1, 1, 2] [[0], [0], [0], [0]]
                     [[[1]], [[1]], [[3]], [[3]]])\<rparr>,
        constraintsProjection :=
          [example_projection\<lparr>dfdx := []\<rparr>, VectorFunctionLinearApproximation_Zero 0 1 0,
           example_projection\<lparr>dfdx := []\<rparr>]\<rparr>"


section \<open>Properties of the loops\<close>

subsection \<open>Sums over the nodes\<close>

lemma dot_Nil [simp]: "dot [] v = 0"
  by (simp add: dot_def)

lemma descent_fold:
  "foldl (\<lambda>metric i.
            let metric1 = (if a i \<noteq> [] then metric + dot (a i) (v i) else metric)
            in if b i \<noteq> [] then metric1 + dot (b i) (w i) else metric1)
     m0 [0..<n]
   = m0 + (\<Sum>i<n. dot (a i) (v i) + dot (b i) (w i))"
proof (induction n)
  case 0
  then show ?case by simp
next
  case (Suc n)
  have "(if b n \<noteq> []
         then (if a n \<noteq> [] then m + dot (a n) (v n) else m) + dot (b n) (w n)
         else (if a n \<noteq> [] then m + dot (a n) (v n) else m))
        = m + (dot (a n) (v n) + dot (b n) (w n))" for m
    by (cases "a n"; cases "b n") simp_all
  with Suc show ?case by (simp add: Let_def)
qed

lemma upt_4: "[0..<4] = [0, 1, 2, 3]" and upt_3: "[0..<3] = [0, 1, 2]"
  by (simp_all add: upt_rec)

subsection \<open>The line search loop\<close>

lemma takeStep_loop_cases:
  assumes "takeStep_loop stgs perf baseline sol x u alpha = Some r"
  obtains (Error) e where
      "perf (xNew_of x (deltaXSol sol) alpha) (uNew_of u (deltaUSol sol) alpha) = Inl e"
      "r = Inl e"
  | (Accepted) performanceNew where
      "perf (xNew_of x (deltaXSol sol) alpha) (uNew_of u (deltaUSol sol) alpha) = Inr performanceNew"
      "stepAccepted stgs baseline sol alpha performanceNew"
      "r = Inr (stepSizeBelowTol stgs sol alpha \<or> improvementBelowTol stgs baseline performanceNew,
                performanceNew, xNew_of x (deltaXSol sol) alpha, uNew_of u (deltaUSol sol) alpha)"
  | (Stalled) performanceNew where
      "perf (xNew_of x (deltaXSol sol) alpha) (uNew_of u (deltaUSol sol) alpha) = Inr performanceNew"
      "\<not> stepAccepted stgs baseline sol alpha performanceNew"
      "stepSizeBelowTol stgs sol alpha \<or> alpha * alpha_decay stgs \<le> alpha_min stgs"
      "r = Inr (True, baseline, x, u)"
  | (Shrink) performanceNew where
      "perf (xNew_of x (deltaXSol sol) alpha) (uNew_of u (deltaUSol sol) alpha) = Inr performanceNew"
      "\<not> stepAccepted stgs baseline sol alpha performanceNew"
      "\<not> stepSizeBelowTol stgs sol alpha" "alpha_min stgs < alpha * alpha_decay stgs"
      "takeStep_loop stgs perf baseline sol x u (alpha * alpha_decay stgs) = Some r"
  using assms
  by (subst (asm) takeStep_loop.simps) (auto simp: Let_def split: sum.splits if_splits)

lemma takeStep_loop_induct [consumes 1, case_names Error Accepted Stalled Shrink]:
  assumes ret: "takeStep_loop stgs perf baseline sol x u alpha = Some r"
    and Error: "\<And>alpha e.
      perf (xNew_of x (deltaXSol sol) alpha) (uNew_of u (deltaUSol sol) alpha) = Inl e
      \<Longrightarrow> P alpha (Inl e)"
    and Accepted: "\<And>alpha performanceNew.
      perf (xNew_of x (deltaXSol sol) alpha) (uNew_of u (deltaUSol sol) alpha) = Inr performanceNew
      \<Longrightarrow> stepAccepted stgs baseline sol alpha performanceNew
      \<Longrightarrow> P alpha (Inr (stepSizeBelowTol stgs sol alpha
                           \<or> improvementBelowTol stgs baseline performanceNew,
                         performanceNew, xNew_of x (deltaXSol sol) alpha,
                         uNew_of u (deltaUSol sol) alpha))"
    and Stalled: "\<And>alpha performanceNew.
      perf (xNew_of x (deltaXSol sol) alpha) (uNew_of u (deltaUSol sol) alpha) = Inr performanceNew
      \<Longrightarrow> \<not> stepAccepted stgs baseline sol alpha performanceNew
      \<Longrightarrow> stepSizeBelowTol stgs sol alpha \<or> alpha * alpha_decay stgs \<le> alpha_min stgs
      \<Longrightarrow> P alpha (Inr (True, baseline, x, u))"
    and Shrink: "\<And>alpha performanceNew r.
      perf (xNew_of x (deltaXSol sol) alpha) (uNew_of u (deltaUSol sol) alpha) = Inr performanceNew
      \<Longrightarrow> \<not> stepAccepted stgs baseline sol alpha performanceNew
      \<Longrightarrow> \<not> stepSizeBelowTol stgs sol alpha
      \<Longrightarrow> alpha_min stgs < alpha * alpha_decay stgs
      \<Longrightarrow> P (alpha * alpha_decay stgs) r
      \<Longrightarrow> P alpha r"
  shows "P alpha r"
proof -
  let ?Q = "\<lambda>stgs' perf' baseline' sol' x' u' alpha' r'.
     stgs' = stgs \<and> perf' = perf \<and> baseline' = baseline \<and> sol' = sol \<and> x' = x \<and> u' = u
     \<longrightarrow> P alpha' r'"
  note ind = takeStep_loop.raw_induct
      [where P = ?Q and xa = "((((((stgs, perf), baseline), sol), x), u), alpha)" and y = r,
       unfolded prod.case]
  have "?Q stgs perf baseline sol x u alpha r"
  proof (rule ind)
    show "takeStep_loop stgs perf baseline sol x u alpha = Some r" by (rule ret)
  next
    fix loop stgs' perf' baseline' sol' x' u' alpha' r'
    assume IH: "\<And>stgs perf baseline subproblemSolution x u alpha stgsa.
           loop stgs perf baseline subproblemSolution x u alpha = Some stgsa \<Longrightarrow>
           ?Q stgs perf baseline subproblemSolution x u alpha stgsa"
      and body: "(let uNew = uNew_of u' (deltaUSol sol') alpha';
             xNew = xNew_of x' (deltaXSol sol') alpha'
         in case perf' xNew uNew of Inl e \<Rightarrow> Some (Inl e)
            | Inr performanceNew \<Rightarrow>
                if stepAccepted stgs' baseline' sol' alpha' performanceNew
                then Some
                      (Inr (stepSizeBelowTol stgs' sol' alpha' \<or>
                            improvementBelowTol stgs' baseline' performanceNew,
                            performanceNew, xNew, uNew))
                else if stepSizeBelowTol stgs' sol' alpha'
                     then Some (Inr (True, baseline', x', u'))
                     else if alpha_min stgs' < alpha' * alpha_decay stgs'
                          then loop stgs' perf' baseline' sol' x' u' (alpha' * alpha_decay stgs')
                          else Some (Inr (True, baseline', x', u'))) = Some r'"
    show "?Q stgs' perf' baseline' sol' x' u' alpha' r'"
    proof (intro impI)
      assume eq: "stgs' = stgs \<and> perf' = perf \<and> baseline' = baseline \<and> sol' = sol \<and> x' = x \<and> u' = u"
      show "P alpha' r'"
        using body IH eq Error Accepted Stalled Shrink
        by (auto simp: Let_def split: sum.splits if_splits)
    qed
  qed
  then show ?thesis by simp
qed



lemma takeStep_loop_last_trial:
  assumes "takeStep_loop stgs perf baseline sol x u alpha0 = Some r"
  shows "case r of Inl e \<Rightarrow> True
     | Inr (converged, p, x', u') \<Rightarrow>
         (\<exists>k performanceNew.
            (\<forall>j<k. trialContinues stgs perf baseline sol x u (alpha0 * alpha_decay stgs ^ j))
            \<and> perf (xNew_of x (deltaXSol sol) (alpha0 * alpha_decay stgs ^ k))
                 (uNew_of u (deltaUSol sol) (alpha0 * alpha_decay stgs ^ k)) = Inr performanceNew
            \<and> (if stepAccepted stgs baseline sol (alpha0 * alpha_decay stgs ^ k) performanceNew
               then p = performanceNew
                    \<and> x' = xNew_of x (deltaXSol sol) (alpha0 * alpha_decay stgs ^ k)
                    \<and> u' = uNew_of u (deltaUSol sol) (alpha0 * alpha_decay stgs ^ k)
                    \<and> converged = (stepSizeBelowTol stgs sol (alpha0 * alpha_decay stgs ^ k)
                                   \<or> improvementBelowTol stgs baseline performanceNew)
               else p = baseline \<and> x' = x \<and> u' = u \<and> converged
                    \<and> (stepSizeBelowTol stgs sol (alpha0 * alpha_decay stgs ^ k)
                       \<or> alpha0 * alpha_decay stgs ^ k * alpha_decay stgs \<le> alpha_min stgs)))"
  using assms
proof (induction rule: takeStep_loop_induct)
  case (Error alpha e)
  then show ?case by simp
next
  case (Accepted alpha performanceNew)
  then show ?case by (auto intro!: exI [of _ 0])
next
  case (Stalled alpha performanceNew)
  then show ?case by (auto intro!: exI [of _ 0])
next
  case (Shrink alpha performanceNew r)
  show ?case
  proof (cases r)
    case (Inl e)
    then show ?thesis by simp
  next
    case (Inr res)
    obtain converged p x' u' where res: "res = (converged, p, x', u')"
      by (cases res)
    have eq: "alpha * alpha_decay stgs * alpha_decay stgs ^ k = alpha * alpha_decay stgs ^ Suc k"
      for k by simp
    from Shrink.IH Inr res obtain k pn where
      before: "\<forall>j<k. trialContinues stgs perf baseline sol x u
                        (alpha * alpha_decay stgs * alpha_decay stgs ^ j)"
      and k: "perf (xNew_of x (deltaXSol sol) (alpha * alpha_decay stgs * alpha_decay stgs ^ k))
                 (uNew_of u (deltaUSol sol) (alpha * alpha_decay stgs * alpha_decay stgs ^ k)) = Inr pn
            \<and> (if stepAccepted stgs baseline sol (alpha * alpha_decay stgs * alpha_decay stgs ^ k) pn
               then p = pn
                    \<and> x' = xNew_of x (deltaXSol sol) (alpha * alpha_decay stgs * alpha_decay stgs ^ k)
                    \<and> u' = uNew_of u (deltaUSol sol) (alpha * alpha_decay stgs * alpha_decay stgs ^ k)
                    \<and> converged = (stepSizeBelowTol stgs sol (alpha * alpha_decay stgs * alpha_decay stgs ^ k)
                                   \<or> improvementBelowTol stgs baseline pn)
               else p = baseline \<and> x' = x \<and> u' = u \<and> converged
                    \<and> (stepSizeBelowTol stgs sol (alpha * alpha_decay stgs * alpha_decay stgs ^ k)
                       \<or> alpha * alpha_decay stgs * alpha_decay stgs ^ k * alpha_decay stgs \<le> alpha_min stgs))"
      by auto
    have first: "trialContinues stgs perf baseline sol x u (alpha * alpha_decay stgs ^ 0)"
      using Shrink.hyps by (simp add: trialContinues_def)
    have trials: "\<forall>j<Suc k. trialContinues stgs perf baseline sol x u (alpha * alpha_decay stgs ^ j)"
    proof (intro allI impI)
      fix j assume "j < Suc k"
      show "trialContinues stgs perf baseline sol x u (alpha * alpha_decay stgs ^ j)"
      proof (cases j)
        case 0
        with first show ?thesis by simp
      next
        case (Suc i)
        with \<open>j < Suc k\<close> have "i < k" by simp
        with before have "trialContinues stgs perf baseline sol x u
                            (alpha * alpha_decay stgs * alpha_decay stgs ^ i)" by simp
        then show ?thesis unfolding eq Suc .
      qed
    qed
    show ?thesis
      unfolding Inr res sum.case prod.case
      by (rule exI [of _ "Suc k"], rule exI [of _ pn]) (rule conjI [OF trials k [unfolded eq]])
  qed
qed

lemma takeStep_loop_stalled:
  assumes "\<forall>j\<le>k. \<exists>pn.
      perf (xNew_of x (deltaXSol sol) (alpha * alpha_decay stgs ^ j))
           (uNew_of u (deltaUSol sol) (alpha * alpha_decay stgs ^ j)) = Inr pn
      \<and> \<not> stepAccepted stgs baseline sol (alpha * alpha_decay stgs ^ j) pn"
    and "stepSizeBelowTol stgs sol (alpha * alpha_decay stgs ^ k)
         \<or> alpha * alpha_decay stgs ^ Suc k \<le> alpha_min stgs"
  shows "takeStep_loop stgs perf baseline sol x u alpha = Some (Inr (True, baseline, x, u))"
  using assms
proof (induction k arbitrary: alpha)
  case 0
  from "0.prems"(1) obtain pn where
    "perf (xNew_of x (deltaXSol sol) alpha) (uNew_of u (deltaUSol sol) alpha) = Inr pn"
    "\<not> stepAccepted stgs baseline sol alpha pn"
    by auto
  with "0.prems"(2) show ?case
    by (subst takeStep_loop.simps) (auto simp: Let_def)
next
  case (Suc k)
  from Suc.prems(1) [rule_format, of 0] obtain pn where pn:
    "perf (xNew_of x (deltaXSol sol) alpha) (uNew_of u (deltaUSol sol) alpha) = Inr pn"
    "\<not> stepAccepted stgs baseline sol alpha pn"
    by auto
  have shift: "alpha * alpha_decay stgs * alpha_decay stgs ^ j = alpha * alpha_decay stgs ^ Suc j"
    for j by simp
  have "takeStep_loop stgs perf baseline sol x u (alpha * alpha_decay stgs)
        = Some (Inr (True, baseline, x, u))"
  proof (rule Suc.IH)
    show "\<forall>j\<le>k. \<exists>pn.
      perf (xNew_of x (deltaXSol sol) (alpha * alpha_decay stgs * alpha_decay stgs ^ j))
           (uNew_of u (deltaUSol sol) (alpha * alpha_decay stgs * alpha_decay stgs ^ j)) = Inr pn
      \<and> \<not> stepAccepted stgs baseline sol (alpha * alpha_decay stgs * alpha_decay stgs ^ j) pn"
      unfolding shift using Suc.prems(1) by (meson Suc_le_mono)
    show "stepSizeBelowTol stgs sol (alpha * alpha_decay stgs * alpha_decay stgs ^ k)
         \<or> alpha * alpha_decay stgs * alpha_decay stgs ^ Suc k \<le> alpha_min stgs"
      unfolding shift using Suc.prems(2) .
  qed
  with pn show ?case
    by (subst takeStep_loop.simps) (auto simp: Let_def)
qed

lemma takeStep_lengths:
  assumes "takeStep ext s baseline td initState sol x u = Some (Inr (converged, p, x', u'))"
  shows "length x' = length x \<and> length u' = length u"
proof -
  have "case r of Inl e \<Rightarrow> True | Inr (c, p, x', u') \<Rightarrow> length x' = length x \<and> length u' = length u"
    if "takeStep_loop stgs perf baseline sol x u alpha = Some r" for stgs perf alpha r
    using that
    by (induction rule: takeStep_loop_induct) (simp_all add: xNew_of_def uNew_of_def)
  from this [of "settings s" "computePerformance ext s td initState" 1 "Inr (converged, p, x', u')"]
    assms
  show ?thesis by (auto simp: takeStep_def split: if_splits)
qed

lemma takeStep_loop_returns_within:
  assumes "alpha * alpha_decay stgs ^ Suc n \<le> alpha_min stgs"
  shows "\<exists>r. takeStep_loop stgs perf baseline sol x u alpha = Some r"
  using assms
proof (induction n arbitrary: alpha)
  case 0
  then show ?case
    by (subst takeStep_loop.simps) (auto simp: Let_def split: sum.splits)
next
  case (Suc n)
  have "alpha * alpha_decay stgs * alpha_decay stgs ^ Suc n \<le> alpha_min stgs"
    using Suc.prems by (simp add: mult.assoc)
  from Suc.IH [OF this] obtain r where
    "takeStep_loop stgs perf baseline sol x u (alpha * alpha_decay stgs) = Some r" ..
  then show ?case
    by (subst takeStep_loop.simps) (auto simp: Let_def split: sum.splits)
qed

text \<open>
  With \<open>0 \<le> alpha_decay < 1\<close> and \<open>alpha_min > 0\<close> the step length falls to \<open>alpha_min\<close>
  after finitely many trials, so the line search returns.
\<close>

lemma takeStep_loop_terminates:
  assumes "0 \<le> alpha_decay stgs" "alpha_decay stgs < 1" "0 < alpha_min stgs"
  shows "\<exists>r. takeStep_loop stgs perf baseline sol x u alpha = Some r"
proof -
  have "\<exists>n. alpha * alpha_decay stgs ^ Suc n \<le> alpha_min stgs"
  proof (cases "0 < alpha")
    case False
    then have "alpha * alpha_decay stgs \<le> 0"
      using assms(1) by (simp add: mult_nonpos_nonneg)
    with assms(3) have "alpha * alpha_decay stgs ^ Suc 0 \<le> alpha_min stgs" by simp
    then show ?thesis ..
  next
    case True
    with assms(3) have "0 < alpha_min stgs / alpha" by simp
    from real_arch_pow_inv [OF this assms(2)] obtain n where
      "alpha_decay stgs ^ n < alpha_min stgs / alpha" ..
    with True have small: "alpha * alpha_decay stgs ^ n < alpha_min stgs"
      by (simp add: pos_less_divide_eq mult.commute)
    have "0 \<le> alpha * alpha_decay stgs ^ n"
      using True assms(1) by simp
    then have "alpha * alpha_decay stgs ^ n * alpha_decay stgs \<le> alpha * alpha_decay stgs ^ n"
      using assms(2) by (simp add: mult_left_le)
    moreover have "alpha * alpha_decay stgs ^ Suc n = alpha * alpha_decay stgs ^ n * alpha_decay stgs"
      by simp
    ultimately have "alpha * alpha_decay stgs ^ Suc n \<le> alpha_min stgs"
      using small by linarith
    then show ?thesis ..
  qed
  then obtain n where "alpha * alpha_decay stgs ^ Suc n \<le> alpha_min stgs" ..
  then show ?thesis by (rule takeStep_loop_returns_within)
qed

lemma takeStep_terminates:
  assumes "0 \<le> alpha_decay (settings s)" "alpha_decay (settings s) < 1"
    "0 < alpha_min (settings s)"
  shows "\<exists>r. takeStep ext s baseline td initState sol x u = Some r"
  using takeStep_loop_terminates [OF assms] by (simp add: takeStep_def)

subsection \<open>The loops of the primal solution\<close>

lemma correctPreEvents_upto:
  fixes td :: "AnnotatedTime list" and u :: vector_array_t
  defines "step \<equiv> (\<lambda>u i. if event (td ! i) = PreEvent \<and> i > 0 then u[i := u ! (i - 1)] else u)"
  shows "length (foldl step u [0..<n]) = length u
     \<and> (\<forall>i\<ge>n. foldl step u [0..<n] ! i = u ! i)
     \<and> (\<forall>i<n. i < length u \<longrightarrow>
           (if event (td ! i) = PreEvent \<and> i > 0
            then foldl step u [0..<n] ! i = foldl step u [0..<n] ! (i - 1)
            else foldl step u [0..<n] ! i = u ! i))"
proof (induction n)
  case 0
  then show ?case by simp
next
  case (Suc n)
  let ?v = "foldl step u [0..<n]"
  have IH: "length ?v = length u" "\<And>i. i \<ge> n \<Longrightarrow> ?v ! i = u ! i"
    "\<And>i. i < n \<Longrightarrow> i < length u \<Longrightarrow>
       (if event (td ! i) = PreEvent \<and> i > 0 then ?v ! i = ?v ! (i - 1) else ?v ! i = u ! i)"
    using Suc.IH by auto
  have unfold: "foldl step u [0..<Suc n] = step ?v n"
    by simp
  show ?case
  proof (cases "event (td ! n) = PreEvent \<and> n > 0")
    case False
    then have same: "step ?v n = ?v" by (auto simp: step_def)
    show ?thesis
      unfolding unfold same
      using IH False by (auto simp: less_Suc_eq)
  next
    case True
    then have upd: "step ?v n = ?v[n := ?v ! (n - 1)]" by (simp add: step_def)
    show ?thesis
      unfolding unfold upd
    proof (intro conjI allI impI)
      show "length (?v[n := ?v ! (n - 1)]) = length u" using IH(1) by simp
    next
      fix i assume "Suc n \<le> i"
      then show "?v[n := ?v ! (n - 1)] ! i = u ! i" using IH(2) by simp
    next
      fix i assume i: "i < Suc n" "i < length u"
      show "if event (td ! i) = PreEvent \<and> 0 < i
            then ?v[n := ?v ! (n - 1)] ! i = ?v[n := ?v ! (n - 1)] ! (i - 1)
            else ?v[n := ?v ! (n - 1)] ! i = u ! i"
      proof (cases "i = n")
        case True
        with \<open>event (td ! n) = PreEvent \<and> n > 0\<close> i IH(1) show ?thesis
          by (simp add: nth_list_update)
      next
        case False
        with i have "i < n" by simp
        with IH(3) [OF this i(2)] show ?thesis by (auto simp: nth_list_update)
      qed
    qed
  qed
qed

lemma correctPreEvents_props:
  "length (correctPreEvents td u) = length u"
  "i < length td \<Longrightarrow> i < length u \<Longrightarrow> event (td ! i) = PreEvent \<Longrightarrow> 0 < i
     \<Longrightarrow> correctPreEvents td u ! i = correctPreEvents td u ! (i - 1)"
  "i < length u \<Longrightarrow> \<not> (event (td ! i) = PreEvent \<and> 0 < i) \<Longrightarrow> correctPreEvents td u ! i = u ! i"
proof -
  note props = correctPreEvents_upto [of td u "length td"]
  show "length (correctPreEvents td u) = length u"
    using props by (simp add: correctPreEvents_def)
  show "correctPreEvents td u ! i = correctPreEvents td u ! (i - 1)"
    if "i < length td" "i < length u" "event (td ! i) = PreEvent" "0 < i"
    using props that unfolding correctPreEvents_def by (metis (no_types, lifting))
  show "correctPreEvents td u ! i = u ! i"
    if "i < length u" "\<not> (event (td ! i) = PreEvent \<and> 0 < i)"
  proof (cases "i < length td")
    case True
    with props that show ?thesis unfolding correctPreEvents_def by (metis (no_types, lifting))
  next
    case False
    with props show ?thesis unfolding correctPreEvents_def by (simp add: not_less)
  qed
qed

lemma feedbackLoop_upto:
  fixes P :: "VectorFunctionLinearApproximation list" and K :: matrix_array_t
    and td :: "AnnotatedTime list" and x u :: vector_array_t
  defines "G \<equiv> (\<lambda>i. if length (f (P ! i)) > 0
                       then mat_add_product (dfdx (P ! i)) (dfdu (P ! i)) (K ! i)
                       else K ! i)"
  defines "step \<equiv> (\<lambda>(uff, controllerGain) i.
              if event (td ! i) = PreEvent \<and> i > 0
              then (uff[i := uff ! (i - 1)], controllerGain @ [last controllerGain])
              else
                let gain =
                      (if length (f (P ! i)) > 0
                       then mat_add_product (dfdx (P ! i)) (dfdu (P ! i)) (K ! i)
                       else K ! i)
                in (uff[i := vminus (uff ! i) (mat_vec gain (x ! i))], controllerGain @ [gain]))"
  shows "length (fst (foldl step (u, []) [0..<n])) = length u
     \<and> length (snd (foldl step (u, []) [0..<n])) = n
     \<and> (\<forall>i\<ge>n. fst (foldl step (u, []) [0..<n]) ! i = u ! i)
     \<and> (\<forall>i<n. if event (td ! i) = PreEvent \<and> i > 0
               then snd (foldl step (u, []) [0..<n]) ! i = snd (foldl step (u, []) [0..<n]) ! (i - 1)
               else snd (foldl step (u, []) [0..<n]) ! i = G i)
     \<and> (\<forall>i<n. i < length u \<longrightarrow>
           (if event (td ! i) = PreEvent \<and> i > 0
            then fst (foldl step (u, []) [0..<n]) ! i = fst (foldl step (u, []) [0..<n]) ! (i - 1)
            else fst (foldl step (u, []) [0..<n]) ! i = vminus (u ! i) (mat_vec (G i) (x ! i))))"
proof (induction n)
  case 0
  then show ?case by simp
next
  case (Suc n)
  obtain uff gain where state: "foldl step (u, []) [0..<n] = (uff, gain)"
    by (cases "foldl step (u, []) [0..<n]")
  have IH: "length uff = length u" "length gain = n" "\<And>i. i \<ge> n \<Longrightarrow> uff ! i = u ! i"
    "\<And>i. i < n \<Longrightarrow> (if event (td ! i) = PreEvent \<and> i > 0 then gain ! i = gain ! (i - 1)
                       else gain ! i = G i)"
    "\<And>i. i < n \<Longrightarrow> i < length u \<Longrightarrow>
       (if event (td ! i) = PreEvent \<and> i > 0 then uff ! i = uff ! (i - 1)
        else uff ! i = vminus (u ! i) (mat_vec (G i) (x ! i)))"
    using Suc.IH unfolding state by auto
  have unfold: "foldl step (u, []) [0..<Suc n] = step (uff, gain) n"
    by (simp add: state)
  show ?case
  proof (cases "event (td ! n) = PreEvent \<and> n > 0")
    case True
    then have next_state: "step (uff, gain) n = (uff[n := uff ! (n - 1)], gain @ [last gain])"
      by (simp add: step_def)
    from True IH(2) have last_gain: "last gain = gain ! (n - 1)" "gain \<noteq> []"
      by (auto simp: last_conv_nth)
    show ?thesis
      unfolding unfold next_state fst_conv snd_conv
    proof (intro conjI allI impI)
      show "length (uff[n := uff ! (n - 1)]) = length u" using IH(1) by simp
      show "length (gain @ [last gain]) = Suc n" using IH(2) by simp
    next
      fix i assume "Suc n \<le> i"
      then show "uff[n := uff ! (n - 1)] ! i = u ! i" using IH(3) by simp
    next
      fix i assume i: "i < Suc n"
      show "if event (td ! i) = PreEvent \<and> 0 < i
            then (gain @ [last gain]) ! i = (gain @ [last gain]) ! (i - 1)
            else (gain @ [last gain]) ! i = G i"
      proof (cases "i = n")
        case True
        with \<open>event (td ! n) = PreEvent \<and> n > 0\<close> IH(2) last_gain show ?thesis
          by (simp add: nth_append)
      next
        case False
        with i have "i < n" by simp
        with IH(4) [OF this] IH(2) show ?thesis by (auto simp: nth_append)
      qed
    next
      fix i assume i: "i < Suc n" "i < length u"
      show "if event (td ! i) = PreEvent \<and> 0 < i
            then uff[n := uff ! (n - 1)] ! i = uff[n := uff ! (n - 1)] ! (i - 1)
            else uff[n := uff ! (n - 1)] ! i = vminus (u ! i) (mat_vec (G i) (x ! i))"
      proof (cases "i = n")
        case True
        with \<open>event (td ! n) = PreEvent \<and> n > 0\<close> i IH(1) show ?thesis
          by (simp add: nth_list_update)
      next
        case False
        with i have "i < n" by simp
        with IH(5) [OF this i(2)] show ?thesis by (auto simp: nth_list_update)
      qed
    qed
  next
    case False
    then have next_state:
      "step (uff, gain) n = (uff[n := vminus (uff ! n) (mat_vec (G n) (x ! n))], gain @ [G n])"
      by (auto simp: step_def G_def Let_def)
    show ?thesis
      unfolding unfold next_state fst_conv snd_conv
    proof (intro conjI allI impI)
      show "length (uff[n := vminus (uff ! n) (mat_vec (G n) (x ! n))]) = length u"
        using IH(1) by simp
      show "length (gain @ [G n]) = Suc n" using IH(2) by simp
    next
      fix i assume "Suc n \<le> i"
      then show "uff[n := vminus (uff ! n) (mat_vec (G n) (x ! n))] ! i = u ! i"
        using IH(3) by simp
    next
      fix i assume i: "i < Suc n"
      show "if event (td ! i) = PreEvent \<and> 0 < i
            then (gain @ [G n]) ! i = (gain @ [G n]) ! (i - 1)
            else (gain @ [G n]) ! i = G i"
      proof (cases "i = n")
        case True
        with False IH(2) show ?thesis by (auto simp: nth_append)
      next
        case neq: False
        with i have "i < n" by simp
        with IH(4) [OF this] IH(2) show ?thesis by (auto simp: nth_append)
      qed
    next
      fix i assume i: "i < Suc n" "i < length u"
      show "if event (td ! i) = PreEvent \<and> 0 < i
            then uff[n := vminus (uff ! n) (mat_vec (G n) (x ! n))] ! i
                 = uff[n := vminus (uff ! n) (mat_vec (G n) (x ! n))] ! (i - 1)
            else uff[n := vminus (uff ! n) (mat_vec (G n) (x ! n))] ! i
                 = vminus (u ! i) (mat_vec (G i) (x ! i))"
      proof (cases "i = n")
        case True
        with False i IH(1) IH(3) [of n] show ?thesis by (auto simp: nth_list_update)
      next
        case neq: False
        with i have "i < n" by simp
        with IH(5) [OF this i(2)] show ?thesis by (auto simp: nth_list_update)
      qed
    qed
  qed
qed

lemma setPrimalSolution_Inr:
  assumes "setPrimalSolution ext s td x u = Inr s'"
  defines "K \<equiv> getRiccatiFeedback ext (hpipmInterface s) (hd (dynamics s)) (hd (cost s))"
  defines "u1 \<equiv> correctPreEvents td u"
  defines "fl \<equiv> feedbackLoop (constraintsProjection s) K td x u1"
  shows "setPrimalSolution_inRange s K td x u"
    and "primalSolution s' =
       \<lparr>timeTrajectory = map time td, stateTrajectory = x, inputTrajectory = u1 @ [last u1],
        modeSchedule = getModeSchedule ext,
        controllerPtr =
          Some (if useFeedbackPolicy (settings s)
                then LinearController (map time td) (fst fl @ [last (fst fl)])
                       (snd fl @ [last (snd fl)])
                else FeedforwardController (map time td) (u1 @ [last u1]))\<rparr>"
    and "performanceIndeces s' = performanceIndeces s"
    and "totalNumIterations s' = totalNumIterations s"
  using assms(1) unfolding K_def u1_def fl_def setPrimalSolution_def Let_def
  by (auto split: if_splits prod.splits)

lemma setPrimalSolution_trajectories:
  assumes "setPrimalSolution ext s td x u = Inr s'"
    and "length x = length td" and "length u + 1 = length td"
  shows "length (timeTrajectory (primalSolution s')) = length td
     \<and> length (stateTrajectory (primalSolution s')) = length td
     \<and> length (inputTrajectory (primalSolution s')) = length td
     \<and> (\<forall>i. 0 < i \<and> i < length td \<and> event (td ! i) = PreEvent
            \<longrightarrow> inputTrajectory (primalSolution s') ! i
                = inputTrajectory (primalSolution s') ! (i - 1))"
proof -
  let ?u1 = "correctPreEvents td u"
  note sol = setPrimalSolution_Inr(2) [OF assms(1)]
  have range: "setPrimalSolution_inRange s
      (getRiccatiFeedback ext (hpipmInterface s) (hd (dynamics s)) (hd (cost s))) td x u"
    by (rule setPrimalSolution_Inr(1) [OF assms(1)])
  then have nonempty: "u \<noteq> []"
    by (simp add: setPrimalSolution_inRange_def)
  have len: "length ?u1 = length u"
    by (rule correctPreEvents_props(1))
  have "(?u1 @ [last ?u1]) ! i = (?u1 @ [last ?u1]) ! (i - 1)"
    if i: "0 < i" "i < length td" "event (td ! i) = PreEvent" for i
  proof (cases "i < length u")
    case True
    then have "i - 1 < length u" by simp
    with True i correctPreEvents_props(2) [of i td u] len show ?thesis
      by (simp add: nth_append)
  next
    case False
    with i assms(3) have "i = length u" by simp
    moreover from nonempty len have "?u1 \<noteq> []" by auto
    ultimately show ?thesis
      using len by (simp add: nth_append last_conv_nth)
  qed
  with assms(2,3) len show ?thesis
    by (simp add: sol)
qed

subsection \<open>The iterate and the log along a run\<close>

lemma initializeNode_lengths:
  "length (fst (foldl (initializeNode ext s td till) (xs, us) js)) = length xs + length js
   \<and> length (snd (foldl (initializeNode ext s td till) (xs, us) js)) = length us + length js"
proof (induction js arbitrary: xs us)
  case Nil
  then show ?case by simp
next
  case (Cons j js)
  obtain xs1 us1 where node: "initializeNode ext s td till (xs, us) j = (xs1, us1)"
    by (cases "initializeNode ext s td till (xs, us) j")
  then have "length xs1 = length xs + 1 \<and> length us1 = length us + 1"
    by (auto simp: initializeNode_def Let_def split: if_splits prod.splits)
  with Cons.IH [of xs1 us1] show ?case
    by (simp add: node)
qed

lemma initializeStateInputTrajectories_lengths:
  assumes "initializeStateInputTrajectories ext s initState td = Inr (x, u)"
  shows "length x = length td" and "length u + 1 = length td"
proof -
  have nonempty: "td \<noteq> []"
    using assms by (auto simp: initializeStateInputTrajectories_def split: if_splits)
  from assms obtain till where
    "foldl (initializeNode ext s td till) ([initState], []) [0..<length td - 1] = (x, u)"
    by (auto simp: initializeStateInputTrajectories_def Let_def split: if_splits)
  with initializeNode_lengths [of ext s td till "[initState]" "[]" "[0..<length td - 1]"]
  have "length x = 1 + (length td - 1) \<and> length u = length td - 1"
    by (metis add.commute add.left_neutral fst_conv length_Cons length_upt list.size(3)
        minus_nat.diff_0 snd_conv plus_1_eq_Suc)
  with nonempty show "length x = length td" and "length u + 1 = length td"
    by (cases td; simp)+
qed

lemma setupQuadraticSubproblem_log:
  assumes "setupQuadraticSubproblem ext s td initState x u = Inr (p, s')"
  shows "performanceIndeces s' = performanceIndeces s \<and> totalNumIterations s' = totalNumIterations s"
  using assms by (auto simp: setupQuadraticSubproblem_def Let_def split: if_splits)

lemma getOCPSolution_log:
  assumes "getOCPSolution ext s d = Inr (sol, s')"
  shows "performanceIndeces s' = performanceIndeces s \<and> totalNumIterations s' = totalNumIterations s"
  using assms by (auto simp: getOCPSolution_def Let_def split: if_splits prod.splits)

lemma sqpIterations_invariants:
  assumes "sqpIterations ext td initState n s x u = Some (Inr (s', x', u'))"
  shows "length x' = length x \<and> length u' = length u
     \<and> (\<exists>steps. performanceIndeces s' = performanceIndeces s @ steps
            \<and> totalNumIterations s' = totalNumIterations s + length steps
            \<and> length steps \<le> n \<and> (0 < n \<longrightarrow> steps \<noteq> []))"
  using assms
proof (induction n arbitrary: s x u)
  case 0
  then show ?case by simp
next
  case (Suc n)
  from Suc.prems obtain baselinePerformance s1 where
    approx: "setupQuadraticSubproblem ext s td initState x u = Inr (baselinePerformance, s1)"
    by (auto split: sum.splits)
  from Suc.prems approx obtain deltaSolution s2 where
    qp: "getOCPSolution ext s1 (vminus initState (x ! 0)) = Inr (deltaSolution, s2)"
    by (auto split: sum.splits)
  from Suc.prems approx qp obtain converged stepPerformance x1 u1 where
    step: "takeStep ext s2 baselinePerformance td initState deltaSolution x u
           = Some (Inr (converged, stepPerformance, x1, u1))"
    by (auto split: sum.splits option.splits)
  let ?s3 = "s2\<lparr>performanceIndeces := performanceIndeces s2 @ [stepPerformance],
                 totalNumIterations := totalNumIterations s2 + 1\<rparr>"
  have log2: "performanceIndeces s2 = performanceIndeces s"
    "totalNumIterations s2 = totalNumIterations s"
    using setupQuadraticSubproblem_log [OF approx] getOCPSolution_log [OF qp] by simp_all
  note lens = takeStep_lengths [OF step]
  show ?case
  proof (cases converged)
    case True
    with Suc.prems approx qp step have "s' = ?s3" "x' = x1" "u' = u1"
      by (simp_all add: Let_def)
    with lens log2 show ?thesis
      by (auto intro!: exI [of _ "[stepPerformance]"])
  next
    case False
    with Suc.prems approx qp step
    have "sqpIterations ext td initState n ?s3 x1 u1 = Some (Inr (s', x', u'))"
      by (simp add: Let_def)
    from Suc.IH [OF this] obtain steps where
      "length x' = length x1" "length u' = length u1"
      "performanceIndeces s' = performanceIndeces ?s3 @ steps"
      "totalNumIterations s' = totalNumIterations ?s3 + length steps" "length steps \<le> n"
      by auto
    with lens log2 show ?thesis
      by (auto intro!: exI [of _ "stepPerformance # steps"])
  qed
qed

lemma setupQuadraticSubproblem_settings:
  assumes "setupQuadraticSubproblem ext s td initState x u = Inr (p, s')"
  shows "settings s' = settings s"
  using assms by (auto simp: setupQuadraticSubproblem_def Let_def split: if_splits)

lemma getOCPSolution_settings:
  assumes "getOCPSolution ext s d = Inr (sol, s')"
  shows "settings s' = settings s"
  using assms by (auto simp: getOCPSolution_def Let_def split: if_splits prod.splits)

lemma sqpIterations_terminates:
  assumes "0 \<le> alpha_decay (settings s)" "alpha_decay (settings s) < 1"
    "0 < alpha_min (settings s)"
  shows "\<exists>r. sqpIterations ext td initState n s x u = Some r"
  using assms
proof (induction n arbitrary: s x u)
  case 0
  then show ?case by simp
next
  case (Suc n)
  show ?case
  proof (cases "setupQuadraticSubproblem ext s td initState x u")
    case (Inl e)
    then show ?thesis by simp
  next
    case (Inr approximation)
    obtain baselinePerformance s1 where
      approx: "setupQuadraticSubproblem ext s td initState x u = Inr (baselinePerformance, s1)"
      using Inr by (cases approximation) simp
    show ?thesis
    proof (cases "getOCPSolution ext s1 (vminus initState (x ! 0))")
      case (Inl e)
      with approx show ?thesis by simp
    next
      case (Inr qpSolution)
      obtain deltaSolution s2 where
        qp: "getOCPSolution ext s1 (vminus initState (x ! 0)) = Inr (deltaSolution, s2)"
        using Inr by (cases qpSolution) simp
      have stgs: "settings s2 = settings s"
        using setupQuadraticSubproblem_settings [OF approx] getOCPSolution_settings [OF qp]
        by simp
      from takeStep_terminates [of s2 ext baselinePerformance td initState deltaSolution x u]
        Suc.prems stgs
      obtain r where
        step: "takeStep ext s2 baselinePerformance td initState deltaSolution x u = Some r"
        by auto
      show ?thesis
      proof (cases r)
        case (Inl e)
        with approx qp step show ?thesis by simp
      next
        case (Inr accepted)
        obtain converged stepPerformance x1 u1 where
          "accepted = (converged, stepPerformance, x1, u1)"
          by (cases accepted)
        with Inr approx qp step
          Suc.IH [of "s2\<lparr>performanceIndeces := performanceIndeces s2 @ [stepPerformance],
                         totalNumIterations := totalNumIterations s2 + 1\<rparr>" x1 u1]
          Suc.prems stgs
        show ?thesis by (auto simp: Let_def)
      qed
    qed
  qed
qed

text \<open>
  A run returns, with a solver or with an error, whenever the step length of the line
  search decays: \<open>0 \<le> alpha_decay < 1\<close> and \<open>alpha_min > 0\<close>.
\<close>

lemma runImpl_terminates:
  assumes "0 \<le> alpha_decay (settings s)" "alpha_decay (settings s) < 1"
    "0 < alpha_min (settings s)"
  shows "\<exists>r. runImpl ext s initTime initState finalTime partitioningTimes = Some r"
proof -
  let ?grid = "timeDiscretizationWithEvents ext initTime finalTime (dt (settings s))
                 (eventTimes (getModeSchedule ext))"
  show ?thesis
  proof (cases "initializeStateInputTrajectories ext s initState ?grid")
    case (Inl e)
    then show ?thesis by (simp add: runImpl_def)
  next
    case (Inr xu)
    obtain x u where xu: "xu = (x, u)" by (cases xu)
    from sqpIterations_terminates
      [of "s\<lparr>performanceIndeces := []\<rparr>" ext ?grid initState "sqpIteration (settings s)" x u]
      assms
    obtain r where "sqpIterations ext ?grid initState (sqpIteration (settings s))
                      (s\<lparr>performanceIndeces := []\<rparr>) x u = Some r"
      by auto
    with Inr xu show ?thesis
      by (cases r) (auto simp: runImpl_def Let_def)
  qed
qed

subsection \<open>Names of a collection\<close>

lemma termNameMap_add_all:
  "termNameMap (add_all ops c) name = None \<longleftrightarrow> termNameMap c name = None \<and> name \<notin> fst ` set ops"
proof (induction ops arbitrary: c)
  case Nil
  then show ?case by simp
next
  case (Cons op ops)
  obtain n t where op: "op = (n, t)" by (cases op)
  show ?case
    by (auto simp: op Cons.IH add_def emplace_def Let_def split: option.splits)
qed

text \<open>
  Every index of the name map of a collection built by \<^verbatim>\<open>add\<close> calls lies inside the
  sequence of terms, and \<^verbatim>\<open>add\<close> keeps it so. On such a collection \<^verbatim>\<open>get\<close> returns,
  for each name, the term of the first \<^verbatim>\<open>add\<close> with that name.
\<close>

lemma add_wellformed:
  assumes "\<forall>n i. termNameMap c n = Some i \<longrightarrow> i < length (terms c)"
  shows "\<forall>n i. termNameMap (snd (add name t c)) n = Some i
           \<longrightarrow> i < length (terms (snd (add name t c)))"
  using assms
  by (auto simp: add_def emplace_def Let_def less_Suc_eq split: option.splits if_splits)

lemma get_add_other:
  assumes "\<forall>n i. termNameMap c n = Some i \<longrightarrow> i < length (terms c)"
    and "other \<noteq> name"
  shows "get (snd (add name t c)) other = get c other"
proof -
  have "i < length (terms c)" if "termNameMap c other = Some i" for i
    using assms(1) that by blast
  with assms(2) show ?thesis
    by (auto simp: add_def emplace_def get_def Let_def nth_append less_Suc_eq
        split: option.splits)
qed

lemma get_add_all:
  assumes "\<forall>n i. termNameMap c n = Some i \<longrightarrow> i < length (terms c)"
  shows "get (add_all ops c) name =
     (case termNameMap c name of
        Some i \<Rightarrow> Inr (terms c ! i)
      | None \<Rightarrow> (case map_of ops name of None \<Rightarrow> Inl (UnknownTerm name) | Some t \<Rightarrow> Inr t))"
  using assms
proof (induction ops arbitrary: c)
  case Nil
  then show ?case by (auto simp: get_def split: option.splits)
next
  case (Cons op ops)
  obtain n t where op: "op = (n, t)" by (cases op)
  have wf: "\<forall>m i. termNameMap (snd (add n t c)) m = Some i
              \<longrightarrow> i < length (terms (snd (add n t c)))"
    by (rule add_wellformed [OF Cons.prems])
  show ?case
    unfolding op add_all.simps Cons.IH [OF wf]
    using Cons.prems
    by (auto simp: add_def emplace_def Let_def nth_append split: option.splits)
qed

lemma add_all_wellformed:
  "\<forall>n i. termNameMap (add_all ops Collection_new) n = Some i
     \<longrightarrow> i < length (terms (add_all ops Collection_new))"
proof -
  have "\<forall>n i. termNameMap (add_all ops c) n = Some i \<longrightarrow> i < length (terms (add_all ops c))"
    if "\<forall>n i. termNameMap c n = Some i \<longrightarrow> i < length (terms c)" for c :: "'a Collection"
    using that
  proof (induction ops arbitrary: c)
    case Nil
    then show ?case by simp
  next
    case (Cons op ops)
    obtain n t where op: "op = (n, t)" by (cases op)
    show ?case
      unfolding op add_all.simps
      by (rule Cons.IH [OF add_wellformed [OF Cons.prems]])
  qed
  then show ?thesis by (simp add: Collection_new_def)
qed

subsection \<open>The concrete problem, evaluated\<close>

lemma trajectoryNorm_example [simp]:
  "trajectoryNorm [[1]] = 1" "trajectoryNorm [[1], [0]] = 1"
  by (simp_all add: trajectoryNorm_def squaredNorm_def dot_def)

lemma example_performance_sel [simp]:
  "merit (example_performance m ise) = Finite m"
  "totalCost (example_performance m ise) = Finite m"
  "inequalityConstraintPenalty (example_performance m ise) = Finite 0"
  "constraintViolation (example_performance m ise)
     = (if ise < 0 then NaN else Finite (sqrt ise))"
  by (simp_all add: constraintViolation_def example_performance_def)

lemma example_line_search:
  "takeStep_loop example_settings (\<lambda>x u. Inr (example_performance (- 1) 0))
        (example_performance 0 0) example_step [[0], [0]] [[0]] 1
      = Some (Inr (True, example_performance (- 1) 0, [[1], [0]], [[1]]))"
  by (subst takeStep_loop.simps)
     (simp add: example_settings_def example_step_def stepSizeBelowTol_def xNew_of_def
        uNew_of_def vplus_def vscale_def stepAccepted_def)

lemma example_solver_sel [simp]:
  "settings example_solver = example_settings"
  "ocpDefinitions example_solver = [example_problem]"
  "performanceIndeces example_solver = []"
  "totalNumIterations example_solver = 0"
  "hpipmInterface example_solver = ()"
  by (simp_all add: example_solver_def MultipleShootingSolver_new_def example_problem_def
      empty_def add_def emplace_def Collection_new_def Let_def example_settings_def)

lemma example_grid_sel [simp]:
  "length example_grid = 4"
  "event (example_grid ! 0) = None_event" "event (example_grid ! Suc 0) = PreEvent"
  "event (example_grid ! 2) = PostEvent" "event (example_grid ! 3) = None_event"
  "event (example_grid ! Suc (Suc 0)) = PostEvent"
  "event (example_grid ! Suc (Suc (Suc 0))) = None_event"
  "example_grid \<noteq> []"
  by (simp_all add: example_grid_def)

lemma example_computePerformance:
  assumes "settings s = stgs" "nThreads stgs = 1" "ocpDefinitions s = [example_problem]"
    and "length x = 4" "length u = 3" "x ! 0 = [0]"
  shows "computePerformance example_ext s example_grid [d] x u = Inr (example_performance 0 (d * d))"
proof -
  have x: "x \<noteq> []" "hd x = [0]"
    using assms(4,6) by (cases x; simp)+
  have range: "sweep_inRange example_ext s example_grid x u"
    using assms x by (simp add: sweep_inRange_def example_ext_def upt_4 upt_3)
  have node: "computeNodePerformance example_ext ocp example_grid x u i = PerformanceIndex_zero"
    for ocp i
    by (simp add: computeNodePerformance_def example_ext_def Let_def)
  have zero: "foldl (\<lambda>p i. PerformanceIndex_plus p PerformanceIndex_zero) PerformanceIndex_zero js
              = PerformanceIndex_zero" for js :: "nat list"
    by (induction js) (simp_all add: PerformanceIndex_plus_def PerformanceIndex_zero_def)
  show ?thesis
    using range assms(1,2) x
    by (simp add: computePerformance_def node zero Let_def)
       (simp add: PerformanceIndex_plus_def PerformanceIndex_zero_def example_performance_def
          squaredNorm_def dot_def vminus_def)
qed


lemma example_long_step_sel [simp]:
  "xNew_of [[0], [0], [0], [0]] (deltaXSol example_long_step) 1 = [[0], [0], [0], [0]]"
  "uNew_of [[0], [], [0]] (deltaUSol example_long_step) 1 = [[1], [], [0]]"
  "stepSizeBelowTol example_settings example_long_step 1"
  "armijoDescentMetric example_long_step = - 1"
  "takeStep_inRange example_long_step [[0], [0], [0], [0]] [[0], [], [0]]"
  by (simp_all add: xNew_of_def uNew_of_def example_long_step_def vplus_def vscale_def upt_4
      upt_3 stepSizeBelowTol_def example_settings_def trajectoryNorm_def squaredNorm_def dot_def
      takeStep_inRange_def)

lemma example_nan_violation [simp]:
  "constraintViolation example_nan_performance = NaN"
  "merit example_nan_performance = Finite (- 1)"
  by (simp_all add: constraintViolation_def example_nan_performance_def)


lemma example_far_step_sel [simp]:
  "xNew_of [[0], [0], [0], [0]] (deltaXSol example_far_step) a = [[2 * a], [0], [0], [0]]"
  "uNew_of [[0], [], [0]] (deltaUSol example_far_step) a = [[0], [], [0]]"
  "trajectoryNorm (deltaXSol example_far_step) = 2"
  "trajectoryNorm (deltaUSol example_far_step) = 0"
  "armijoDescentMetric example_far_step = - 1"
  "takeStep_inRange example_far_step [[0], [0], [0], [0]] [[0], [], [0]]"
  by (simp_all add: xNew_of_def uNew_of_def example_far_step_def vplus_def vscale_def upt_4
      upt_3 trajectoryNorm_def squaredNorm_def dot_def takeStep_inRange_def mult.commute)


lemma example_setupQuadraticSubproblem:
  "setupQuadraticSubproblem example_ext example_solver example_grid [0] [[0], [0], [0], [0]]
     [[0], [], [0]] = Inr (example_performance 0 0, example_solver_lq)"
proof -
  have range: "sweep_inRange example_ext example_solver example_grid [[0], [0], [0], [0]]
                 [[0], [], [0]]"
    by (simp add: sweep_inRange_def example_ext_def upt_4 upt_3 example_settings_def)
  have zero: "foldl (\<lambda>p i. PerformanceIndex_plus p PerformanceIndex_zero) PerformanceIndex_zero js
              = PerformanceIndex_zero" for js :: "nat list"
    by (induction js) (simp_all add: PerformanceIndex_plus_def PerformanceIndex_zero_def)
  have node: "setupNode example_ext ocp True example_grid [[0], [0], [0], [0]] [[0], [], [0]] i
      = (if event (example_grid ! i) = PreEvent
         then \<lparr>performance_i = PerformanceIndex_zero,
               dynamics_i = VectorFunctionLinearApproximation_Zero 1 1 0,
               cost_i = example_cost [0] [],
               constraints_i = VectorFunctionLinearApproximation_Zero 0 1 0,
               constraintsProjection_i =
                 VectorFunctionLinearApproximation_Zero 0 (length ([[0], [0], [0], [0::real]] ! i)) 0\<rparr>
         else \<lparr>performance_i = PerformanceIndex_zero,
               dynamics_i = VectorFunctionLinearApproximation_Zero 1 1 1,
               cost_i = example_cost [0] [1],
               constraints_i = VectorFunctionLinearApproximation_Zero 1 1 1,
               constraintsProjection_i = example_projection\<rparr>)" for ocp i
    by (simp add: setupNode_def example_ext_def Let_def)
  have perf_node: "performance_i (setupNode example_ext ocp True example_grid
      [[0], [0], [0], [0]] [[0], [], [0]] i) = PerformanceIndex_zero" for ocp i
    by (simp add: node)
  have perf_terminal: "performance_t (setupTerminalNode example_ext ocp t x) = PerformanceIndex_zero"
    for ocp t x
    by (simp add: example_ext_def)
  have total: "PerformanceIndex_plus PerformanceIndex_zero PerformanceIndex_zero
                 \<lparr>stateEqConstraintISE := stateEqConstraintISE
                     (PerformanceIndex_plus PerformanceIndex_zero PerformanceIndex_zero)
                     + Finite (squaredNorm (vminus [0] [0]))\<rparr> = example_performance 0 0"
    by (simp add: PerformanceIndex_plus_def PerformanceIndex_zero_def example_performance_def
        squaredNorm_def dot_def vminus_def)
  have sched: "schedule example_ext i = 0" for i
    by (simp add: example_ext_def)
  have terminal: "setupTerminalNode example_ext ocp t x =
      \<lparr>performance_t = PerformanceIndex_zero, cost_t = example_cost [0] [],
       constraints_t = VectorFunctionLinearApproximation_Zero 0 1 0\<rparr>" for ocp t x
    by (simp add: example_ext_def)
  have "setupQuadraticSubproblem example_ext example_solver example_grid [0] [[0], [0], [0], [0]]
     [[0], [], [0]] =
     Inr (example_performance 0 0,
          example_solver
            \<lparr>dynamics := map (\<lambda>i. dynamics_i (setupNode example_ext example_problem True
                              example_grid [[0], [0], [0], [0]] [[0], [], [0]] i)) [0..<3],
             cost := map (\<lambda>i. cost_i (setupNode example_ext example_problem True
                              example_grid [[0], [0], [0], [0]] [[0], [], [0]] i)) [0..<3]
                     @ [example_cost [0] []],
             constraints := map (\<lambda>i. constraints_i (setupNode example_ext example_problem True
                              example_grid [[0], [0], [0], [0]] [[0], [], [0]] i)) [0..<3]
                     @ [VectorFunctionLinearApproximation_Zero 0 1 0],
             constraintsProjection :=
               map (\<lambda>i. constraintsProjection_i (setupNode example_ext example_problem True
                              example_grid [[0], [0], [0], [0]] [[0], [], [0]] i)) [0..<3]\<rparr>)"
    using range
    by (simp add: setupQuadraticSubproblem_def Let_def perf_node perf_terminal zero total sched
        terminal example_settings_def cong: if_cong)
       (simp add: PerformanceIndex_plus_def PerformanceIndex_zero_def example_performance_def)
  then show ?thesis
    by (simp add: node upt_3 example_solver_lq_def)
qed

lemma example_getOCPSolution:
  "getOCPSolution example_ext example_solver_lq [0]
   = Inr (\<lparr>deltaXSol = [[0], [0], [0], [0]], deltaUSol = [[1], [], [0]],
           armijoDescentMetric = - 1\<rparr>, example_solver_lq)"
proof -
  have lq: "ocpDefinitions example_solver_lq = [example_problem]"
    "settings example_solver_lq = example_settings"
    "hpipmInterface example_solver_lq = ()"
    "cost example_solver_lq = [example_cost [0] [1], example_cost [0] [], example_cost [0] [1],
         example_cost [0] []]"
    "constraintsProjection example_solver_lq =
       [example_projection, VectorFunctionLinearApproximation_Zero 0 1 0, example_projection]"
    by (simp_all add: example_solver_lq_def)
  have solve: "hpipm_solve example_ext h d dyn c con
               = (SUCCESS, [[0], [0], [0], [0]], [[0], [], [- 1]], h)" for h d dyn c con
    by (simp add: example_ext_def)
  have range: "getOCPSolution_inRange example_solver_lq [[0], [0], [0], [0]] [[0], [], [- 1]]"
    by (simp add: getOCPSolution_inRange_def lq upt_4 upt_3 example_cost_def
        example_projection_def VectorFunctionLinearApproximation_Zero_def)
  show ?thesis
    by (simp add: getOCPSolution_def solve range lq(1,2,3) Let_def example_settings_def)
       (simp add: lq upt_4 upt_3 example_cost_def example_projection_def
          VectorFunctionLinearApproximation_Zero_def dot_def vplus_def mat_vec_def)
qed

lemma example_solver_lq_sel [simp]:
  "settings example_solver_lq = example_settings"
  "ocpDefinitions example_solver_lq = [example_problem]"
  "hpipmInterface example_solver_lq = ()"
  "performanceIndeces example_solver_lq = []"
  "totalNumIterations example_solver_lq = 0"
  "constraintsProjection example_solver_lq =
     [example_projection, VectorFunctionLinearApproximation_Zero 0 1 0, example_projection]"
  "dynamics example_solver_lq \<noteq> []" "cost example_solver_lq \<noteq> []"
  by (simp_all add: example_solver_lq_def)

lemma example_gain [simp]:
  "mat_add_product (dfdx example_projection) (dfdu example_projection) [[k]] = [[k]]"
  "f example_projection = [1]"
  "f (VectorFunctionLinearApproximation_Zero 0 nx nu) = []"
  by (simp_all add: example_projection_def mat_add_product_def dot_def
      VectorFunctionLinearApproximation_Zero_def)

lemma example_setPrimalSolution:
  assumes "settings s = example_settings"
    and "constraintsProjection s = constraintsProjection example_solver_lq"
    and "dynamics s \<noteq> []" and "cost s \<noteq> []"
  shows "setPrimalSolution example_ext s example_grid [[x0], [x1], [x2], [x3]] [[u0], [], [u2]]
    = Inr (s\<lparr>primalSolution :=
               \<lparr>timeTrajectory = [0, 1, 1, 2],
                stateTrajectory = [[x0], [x1], [x2], [x3]],
                inputTrajectory = [[u0], [u0], [u2], [u2]],
                modeSchedule = \<lparr>eventTimes = [1], modeSequence = [0, 1]\<rparr>,
                controllerPtr =
                  Some (LinearController [0, 1, 1, 2]
                          [[u0 - x0], [u0 - x0], [u2 - 3 * x2], [u2 - 3 * x2]]
                          [[[1]], [[1]], [[3]], [[3]]])\<rparr>,
             constraintsProjection :=
               [example_projection\<lparr>dfdx := []\<rparr>, VectorFunctionLinearApproximation_Zero 0 1 0,
                example_projection\<lparr>dfdx := []\<rparr>]\<rparr>)"
proof -
  have K: "getRiccatiFeedback example_ext h d c = [[[1]], [[2]], [[3]]]" for h d c
    by (simp add: example_ext_def)
  have modes: "getModeSchedule example_ext = \<lparr>eventTimes = [1], modeSequence = [0, 1]\<rparr>"
    by (simp add: example_ext_def)
  have range: "setPrimalSolution_inRange s [[[1]], [[2]], [[3]]] example_grid
                 [[x0], [x1], [x2], [x3]] [[u0], [], [u2]]"
    using assms by (simp add: setPrimalSolution_inRange_def upt_4 upt_3 example_settings_def)
  have u1: "correctPreEvents example_grid [[u0], [], [u2]] = [[u0], [u0], [u2]]"
    by (simp add: correctPreEvents_def upt_4)
  have fl: "feedbackLoop
              [example_projection, VectorFunctionLinearApproximation_Zero 0 (Suc 0) 0,
               example_projection]
              [[[1]], [[2]], [[3]]] example_grid
              [[x0], [x1], [x2], [x3]] [[u0], [u0], [u2]]
            = ([[u0 - x0], [u0 - x0], [u2 - 3 * x2]], [[[1]], [[1]], [[3]]])"
    by (simp add: feedbackLoop_def upt_3 Let_def mat_vec_def vminus_def dot_def)
  have times: "map time example_grid = [0, 1, 1, 2]"
    by (simp add: example_grid_def)
  show ?thesis
    using range assms(1,2)
    by (simp add: setPrimalSolution_def K modes u1 fl times Let_def example_settings_def upt_3)
qed

lemma example_initialize:
  "initializeStateInputTrajectories example_ext example_solver [0] example_grid
   = Inr ([[0], [0], [0], [0]], [[0], [], [0]])"
proof -
  have node: "initializeNode example_ext example_solver example_grid till (xs, us) i
      = (if event (example_grid ! i) = PreEvent then (xs @ [last xs], us @ [[]])
         else (xs @ [last xs], us @ [[0]]))" for till xs us i
    by (simp add: initializeNode_def example_ext_def Let_def)
  show ?thesis
    by (simp add: initializeStateInputTrajectories_def Let_def upt_3 node)
qed

lemma example_takeStep:
  assumes "settings s = example_settings" and "ocpDefinitions s = [example_problem]"
  shows "takeStep example_ext s (example_performance 0 0) example_grid [0]
       \<lparr>deltaXSol = [[0], [0], [0], [0]], deltaUSol = [[1], [], [0]], armijoDescentMetric = - 1\<rparr>
       [[0], [0], [0], [0]] [[0], [], [0]]
     = Some (Inr (True, example_performance 0 0, [[0], [0], [0], [0]], [[0], [], [0]]))"
proof -
  let ?sol = "\<lparr>deltaXSol = [[0], [0], [0], [0]], deltaUSol = [[1], [], [0]],
               armijoDescentMetric = - 1\<rparr>"
  have norms: "trajectoryNorm [[1], [], [0]] = 1" "trajectoryNorm [[0], [0], [0], [0]] = 0"
    by (simp_all add: trajectoryNorm_def squaredNorm_def dot_def)
  have perf: "computePerformance example_ext s example_grid [0]
        (xNew_of [[0], [0], [0], [0]] (deltaXSol ?sol) 1)
        (uNew_of [[0], [], [0]] (deltaUSol ?sol) 1)
      = Inr (example_performance 0 (0 * 0))"
    by (rule example_computePerformance [where stgs = example_settings])
       (simp_all add: assms example_settings_def xNew_of_def uNew_of_def vplus_def vscale_def
          upt_4)
  have "takeStep_loop example_settings (computePerformance example_ext s example_grid [0])
          (example_performance 0 0) ?sol [[0], [0], [0], [0]] [[0], [], [0]] 1
        = Some (Inr (True, example_performance 0 0, [[0], [0], [0], [0]], [[0], [], [0]]))"
    by (rule takeStep_loop_stalled [where k = 0])
       (use perf in \<open>simp_all add: stepAccepted_def stepSizeBelowTol_def norms
          example_settings_def\<close>)
  then show ?thesis
    by (simp add: takeStep_def takeStep_inRange_def assms)
qed

lemma example_runImpl:
  "runImpl example_ext example_solver 0 [0] 2 [0, 2] = Some (Inr example_solved)"
proof -
  have grid: "timeDiscretizationWithEvents example_ext a b c d = example_grid" for a b c d
    by (simp add: example_ext_def)
  have "example_solver\<lparr>performanceIndeces := performanceIndeces example_solver\<rparr>
        = example_solver"
    by simp
  then have cleared: "example_solver\<lparr>performanceIndeces := []\<rparr> = example_solver"
    by (simp only: example_solver_sel)
  let ?s3 = "example_solver_lq\<lparr>performanceIndeces := performanceIndeces example_solver_lq
                                    @ [example_performance 0 0],
                                totalNumIterations := totalNumIterations example_solver_lq + 1\<rparr>"
  have iterations: "sqpIterations example_ext example_grid [0] (Suc (Suc 0)) example_solver
      [[0], [0], [0], [0]] [[0], [], [0]] = Some (Inr (?s3, [[0], [0], [0], [0]], [[0], [], [0]]))"
    by (simp add: example_setupQuadraticSubproblem vminus_def example_getOCPSolution
        example_takeStep)
  have final: "setPrimalSolution example_ext ?s3 example_grid [[0], [0], [0], [0]] [[0], [], [0]]
               = Inr example_solved"
    by (subst example_setPrimalSolution) (simp_all add: example_solved_def)
  have two: "sqpIteration example_settings = Suc (Suc 0)"
    by (simp add: example_settings_def)
  show ?thesis
    using final iterations
    by (simp add: runImpl_def Let_def grid example_initialize cleared two
        del: sqpIterations.simps)
qed

section \<open>Acceptance of a step (C1)\<close>




section \<open>The convergence flag (C2)\<close>

text \<open>
  C2 as stated fails: with \<open>\<alpha>\<parallel>\<delta>u\<parallel> = \<alpha>\<parallel>\<delta>x\<parallel> = 1\<close> and \<open>deltaTol = 3/2\<close> the accepted step
  is declared converged although the merit changes by 1 and \<open>\<alpha>\<parallel>\<delta>u\<parallel> + \<alpha>\<parallel>\<delta>x\<parallel> = 2\<close>.
\<close>

theorem takeStep_converged_counterexample:
  "takeStep_loop example_settings (\<lambda>x u. Inr (example_performance (- 1) 0))
        (example_performance 0 0) example_step [[0], [0]] [[0]] 1
      = Some (Inr (True, example_performance (- 1) 0, [[1], [0]], [[1]]))
   \<and> stepAccepted example_settings (example_performance 0 0) example_step 1
        (example_performance (- 1) 0)
   \<and> \<not> converged_as_specified example_settings (example_performance 0 0) example_step 1 True
         (example_performance (- 1) 0)"
  using example_line_search
  by (simp add: example_settings_def example_step_def stepAccepted_def
        converged_as_specified_def)

text \<open>
  C2, as amended. When \<^verbatim>\<open>takeStep\<close> returns, there is a last trial \<open>k\<close>, with step length
  \<open>\<alpha> = alpha_decay\<^sup>k\<close> times the first one, before which every trial was rejected and the
  loop went on. An accepted candidate is returned, a rejected one leaves the baseline and
  the iterate, and the flag is true exactly when the accepted step changes the merit by
  less than \<open>costTol\<close> with a violation below \<open>g_min\<close>, or both \<open>\<alpha>\<parallel>\<delta>u\<parallel> < deltaTol\<close> and
  \<open>\<alpha>\<parallel>\<delta>x\<parallel> < deltaTol\<close> hold, or the candidate was rejected and the next step length
  \<open>\<alpha> \<cdot> alpha_decay\<close> is not above \<open>alpha_min\<close>.
\<close>

theorem takeStep_converged_flag:
  assumes "takeStep_loop stgs perf baseline sol x u alpha0 = Some (Inr (converged, p, x', u'))"
  shows "\<exists>k performanceNew.
     let alpha = alpha0 * alpha_decay stgs ^ k;
         accepted = stepAccepted stgs baseline sol alpha performanceNew
     in (\<forall>j<k. trialContinues stgs perf baseline sol x u (alpha0 * alpha_decay stgs ^ j))
        \<and> perf (xNew_of x (deltaXSol sol) alpha) (uNew_of u (deltaUSol sol) alpha)
            = Inr performanceNew
        \<and> (p, x', u') = (if accepted
                         then (performanceNew, xNew_of x (deltaXSol sol) alpha,
                               uNew_of u (deltaUSol sol) alpha)
                         else (baseline, x, u))
        \<and> (converged \<longleftrightarrow>
              accepted \<and> \<bar>merit baseline - merit performanceNew\<bar> < Finite (costTol stgs)
                \<and> constraintViolation performanceNew < Finite (g_min stgs)
              \<or> alpha * trajectoryNorm (deltaUSol sol) < deltaTol stgs
                \<and> alpha * trajectoryNorm (deltaXSol sol) < deltaTol stgs
              \<or> \<not> accepted \<and> alpha * alpha_decay stgs \<le> alpha_min stgs)"
proof -
  from takeStep_loop_last_trial [OF assms] obtain k pn where
    "\<forall>j<k. trialContinues stgs perf baseline sol x u (alpha0 * alpha_decay stgs ^ j)"
    "perf (xNew_of x (deltaXSol sol) (alpha0 * alpha_decay stgs ^ k))
          (uNew_of u (deltaUSol sol) (alpha0 * alpha_decay stgs ^ k)) = Inr pn"
    "if stepAccepted stgs baseline sol (alpha0 * alpha_decay stgs ^ k) pn
     then p = pn
          \<and> x' = xNew_of x (deltaXSol sol) (alpha0 * alpha_decay stgs ^ k)
          \<and> u' = uNew_of u (deltaUSol sol) (alpha0 * alpha_decay stgs ^ k)
          \<and> converged = (stepSizeBelowTol stgs sol (alpha0 * alpha_decay stgs ^ k)
                         \<or> improvementBelowTol stgs baseline pn)
     else p = baseline \<and> x' = x \<and> u' = u \<and> converged
          \<and> (stepSizeBelowTol stgs sol (alpha0 * alpha_decay stgs ^ k)
             \<or> alpha0 * alpha_decay stgs ^ k * alpha_decay stgs \<le> alpha_min stgs)"
    by auto
  then show ?thesis
    by (intro exI [of _ k] exI [of _ pn])
       (auto simp: Let_def stepSizeBelowTol_def improvementBelowTol_def split: if_splits)
qed

theorem takeStep_converged_flag_witness:
  "\<exists>k performanceNew.
     let alpha = 1 * alpha_decay example_settings ^ k;
         accepted = stepAccepted example_settings (example_performance 0 0) example_step alpha
                      performanceNew
     in (\<forall>j<k. trialContinues example_settings (\<lambda>x u. Inr (example_performance (- 1) 0))
                  (example_performance 0 0) example_step [[0], [0]] [[0]]
                  (1 * alpha_decay example_settings ^ j))
        \<and> (Inr (example_performance (- 1) 0) :: error + PerformanceIndex) = Inr performanceNew
        \<and> (example_performance (- 1) 0, [[1], [0]], [[1]])
           = (if accepted
              then (performanceNew, xNew_of [[0], [0]] (deltaXSol example_step) alpha,
                    uNew_of [[0]] (deltaUSol example_step) alpha)
              else (example_performance 0 0, [[0], [0]], [[0]]))
        \<and> (True \<longleftrightarrow>
              accepted \<and> \<bar>merit (example_performance 0 0) - merit performanceNew\<bar>
                          < Finite (costTol example_settings)
                \<and> constraintViolation performanceNew < Finite (g_min example_settings)
              \<or> alpha * trajectoryNorm (deltaUSol example_step) < deltaTol example_settings
                \<and> alpha * trajectoryNorm (deltaXSol example_step) < deltaTol example_settings
              \<or> \<not> accepted \<and> alpha * alpha_decay example_settings \<le> alpha_min example_settings)"
  by (rule takeStep_converged_flag [OF example_line_search])

section \<open>The Armijo descent metric (C3)\<close>

text \<open>
  C3 as stated fails: with the projection enabled the QP solver returns \<open>\<delta>\<tilde>u = (0, -1)\<close>
  at the two intermediate nodes, the metric is \<open>-1\<close>, and the returned step is the
  expanded \<open>\<delta>u = (1, 0)\<close>, for which \<open>\<Sum>\<^sub>i (\<nabla>\<^sub>x C\<^sub>i \<cdot> \<delta>x\<^sub>i + \<nabla>\<^sub>u C\<^sub>i \<cdot> \<delta>u\<^sub>i) = 1\<close>.
\<close>

theorem getOCPSolution_metric_counterexample:
  "getOCPSolution example_ext example_solver_lq [0]
   = Inr (\<lparr>deltaXSol = [[0], [0], [0], [0]], deltaUSol = [[1], [], [0]],
           armijoDescentMetric = - 1\<rparr>, example_solver_lq)
   \<and> projectStateInputEqualityConstraints (settings example_solver_lq)
   \<and> descentMetric_as_specified (cost example_solver_lq) [[0], [0], [0], [0]] [[1], [], [0]] = 1
   \<and> armijoDescentMetric \<lparr>deltaXSol = [[0], [0], [0], [0]], deltaUSol = [[1], [], [0]],
                            armijoDescentMetric = - 1\<rparr>
       \<noteq> descentMetric_as_specified (cost example_solver_lq) [[0], [0], [0], [0]] [[1], [], [0]]"
  using example_getOCPSolution
  by (simp add: example_solver_lq_def descentMetric_as_specified_def example_settings_def
      example_cost_def dot_def eval_nat_numeral)

text \<open>
  C3, as amended. \<^verbatim>\<open>getOCPSolution\<close> computes the descent metric once, as
  \<open>\<Sum>\<^sub>i (\<nabla>\<^sub>x C\<^sub>i \<cdot> \<delta>x\<^sub>i + \<nabla>\<^sub>u C\<^sub>i \<cdot> \<delta>u\<^sub>i)\<close> over the cost models of the QP and the step the QP
  solver returned. With the projection enabled that step is the projected \<open>\<delta>\<tilde>u\<close>; the
  returned \<open>\<delta>u\<close> is then expanded to \<open>P\<^sub>u \<delta>\<tilde>u + p\<^sub>0 + P\<^sub>x \<delta>x\<close> at every node with a
  projection, and the metric is not recomputed.
\<close>

theorem getOCPSolution_descent_metric:
  assumes "getOCPSolution ext s delta_x0 = Inr (sol, s')"
    and "hpipm_solve ext (hpipmInterface s) delta_x0 (dynamics s) (cost s)
           (if \<not> empty (equalityConstraintPtr (hd (ocpDefinitions s)))
               \<and> \<not> projectStateInputEqualityConstraints (settings s)
            then Some (constraints s) else None)
         = (status, dXSol, dUSol, workspace)"
  shows "armijoDescentMetric sol = descentMetric_as_specified (cost s) dXSol dUSol
     \<and> deltaXSol sol = dXSol
     \<and> length (deltaUSol sol) = length dUSol
     \<and> (\<forall>i<length dUSol.
           deltaUSol sol ! i =
             (if projectStateInputEqualityConstraints (settings s)
                 \<and> f (constraintsProjection s ! i) \<noteq> []
              then vplus (vplus (mat_vec (dfdu (constraintsProjection s ! i)) (dUSol ! i))
                            (f (constraintsProjection s ! i)))
                     (mat_vec (dfdx (constraintsProjection s ! i)) (dXSol ! i))
              else dUSol ! i))"
proof -
  have solve: "(if \<not> empty (equalityConstraintPtr (hd (ocpDefinitions s)))
                   \<and> \<not> projectStateInputEqualityConstraints (settings s)
                then hpipm_solve ext (hpipmInterface s) delta_x0 (dynamics s) (cost s)
                       (Some (constraints s))
                else hpipm_solve ext (hpipmInterface s) delta_x0 (dynamics s) (cost s) None)
               = (status, dXSol, dUSol, workspace)"
    using assms(2) by (auto split: if_splits)
  have sol: "sol =
      \<lparr>deltaXSol = dXSol,
       deltaUSol =
         (if projectStateInputEqualityConstraints (settings s)
          then map (\<lambda>i. if length (f (constraintsProjection s ! i)) > 0
                         then vplus
                                (vplus (mat_vec (dfdu (constraintsProjection s ! i)) (dUSol ! i))
                                   (f (constraintsProjection s ! i)))
                                (mat_vec (dfdx (constraintsProjection s ! i)) (dXSol ! i))
                         else dUSol ! i)
                 [0..<length dUSol]
          else dUSol),
       armijoDescentMetric =
         foldl (\<lambda>metric i.
                  let metric1 =
                        (if length (q_dfdx (cost s ! i)) > 0
                         then metric + dot (q_dfdx (cost s ! i)) (dXSol ! i)
                         else metric)
                  in if length (q_dfdu (cost s ! i)) > 0
                     then metric1 + dot (q_dfdu (cost s ! i)) (dUSol ! i)
                     else metric1)
           0 [0..<length (cost s)]\<rparr>"
    using assms(1) unfolding getOCPSolution_def Let_def solve prod.case
    by (simp split: if_splits)
  show ?thesis
    by (subst sol, subst sol, subst sol, subst sol)
       (simp add: descent_fold descentMetric_as_specified_def)
qed

theorem getOCPSolution_descent_metric_witness:
  "armijoDescentMetric \<lparr>deltaXSol = [[0], [0], [0], [0]], deltaUSol = [[1], [], [0]],
                         armijoDescentMetric = - 1\<rparr>
     = descentMetric_as_specified (cost example_solver_lq) [[0], [0], [0], [0]] [[0], [], [- 1]]
   \<and> descentMetric_as_specified (cost example_solver_lq) [[0], [0], [0], [0]] [[0], [], [- 1]] = - 1
   \<and> [[1], [], [0]] ! 0
       = vplus (vplus (mat_vec (dfdu (constraintsProjection example_solver_lq ! 0)) [0])
                  (f (constraintsProjection example_solver_lq ! 0)))
           (mat_vec (dfdx (constraintsProjection example_solver_lq ! 0)) [0])"
proof -
  have solve: "hpipm_solve example_ext (hpipmInterface example_solver_lq) [0]
       (dynamics example_solver_lq) (cost example_solver_lq)
       (if \<not> empty (equalityConstraintPtr (hd (ocpDefinitions example_solver_lq)))
           \<and> \<not> projectStateInputEqualityConstraints (settings example_solver_lq)
        then Some (constraints example_solver_lq) else None)
      = (SUCCESS, [[0], [0], [0], [0]], [[0], [], [- 1]], ())"
    by (simp add: example_ext_def)
  have proj: "projectStateInputEqualityConstraints (settings example_solver_lq)"
      "f (constraintsProjection example_solver_lq ! 0) \<noteq> []"
    by (simp_all add: example_solver_lq_def example_settings_def example_projection_def)
  show ?thesis
    using getOCPSolution_descent_metric [OF example_getOCPSolution solve] proj
    by (auto simp: example_solver_lq_def descentMetric_as_specified_def example_cost_def dot_def
        eval_nat_numeral)
qed

section \<open>The merit of a performance index (C4)\<close>

text \<open>
  C4 as stated fails: the candidate below violates the initial-state constraint
  (\<open>\<theta> = 2\<close>, from \<^verbatim>\<open>stateEqConstraintISE = 4\<close>), and its merit is exactly
  \<open>totalCost + inequalityConstraintPenalty\<close>: a penalty that is positive at a violated
  equality or state constraint, such as the violation \<open>\<theta>\<close> itself, is not part of it.
\<close>

theorem sqp_merit_counterexample:
  "computePerformance example_ext example_solver example_grid [2] [[0], [0], [0], [0]]
     [[0], [], [0]] = Inr (example_performance 0 4)
   \<and> constraintViolation (example_performance 0 4) = Finite 2
   \<and> merit (example_performance 0 4)
       = totalCost (example_performance 0 4) + inequalityConstraintPenalty (example_performance 0 4)
   \<and> merit (example_performance 0 4)
       \<noteq> totalCost (example_performance 0 4) + inequalityConstraintPenalty (example_performance 0 4)
         + constraintViolation (example_performance 0 4)"
  using example_computePerformance [where s = example_solver and stgs = example_settings
      and x = "[[0], [0], [0], [0]]" and u = "[[0], [], [0]]" and d = 2]
  by (simp add: example_settings_def)

text \<open>
  C4, as amended. The performance index that \<^verbatim>\<open>setupQuadraticSubproblem\<close> returns and the
  one that \<^verbatim>\<open>computePerformance\<close> returns satisfy
  \<open>merit = totalCost + inequalityConstraintPenalty\<close>, with no further term: the violations
  of the equality constraints and of the initial state are not part of the merit.
\<close>

theorem sqp_merit:
  "(setupQuadraticSubproblem ext s timeDiscretization initState x u = Inr (p, s')
      \<longrightarrow> merit p = totalCost p + inequalityConstraintPenalty p)
   \<and> (computePerformance ext s timeDiscretization initState x u = Inr q
      \<longrightarrow> merit q = totalCost q + inequalityConstraintPenalty q)"
  by (auto simp: setupQuadraticSubproblem_def computePerformance_def Let_def split: if_splits)

theorem sqp_merit_witness:
  "setupQuadraticSubproblem example_ext example_solver example_grid [0] [[0], [0], [0], [0]]
     [[0], [], [0]] = Inr (example_performance 0 0, example_solver_lq)
   \<and> merit (example_performance 0 0)
     = totalCost (example_performance 0 0) + inequalityConstraintPenalty (example_performance 0 0)
   \<and> computePerformance example_ext example_solver example_grid [2] [[0], [0], [0], [0]]
     [[0], [], [0]] = Inr (example_performance 0 4)
   \<and> merit (example_performance 0 4)
     = totalCost (example_performance 0 4) + inequalityConstraintPenalty (example_performance 0 4)"
  using sqp_merit [where ext = example_ext and s = example_solver
      and timeDiscretization = example_grid and initState = "[0]"
      and x = "[[0], [0], [0], [0]]" and u = "[[0], [], [0]]"
      and p = "example_performance 0 0" and s' = example_solver_lq
      and q = "example_performance 0 0"]
    sqp_merit [where ext = example_ext and s = example_solver
      and timeDiscretization = example_grid and initState = "[2]"
      and x = "[[0], [0], [0], [0]]" and u = "[[0], [], [0]]"
      and p = "example_performance 0 4" and s' = example_solver_lq
      and q = "example_performance 0 4"]
    example_setupQuadraticSubproblem
    example_computePerformance [where s = example_solver and stgs = example_settings
      and x = "[[0], [0], [0], [0]]" and u = "[[0], [], [0]]" and d = 2]
  by (simp add: example_settings_def)

section \<open>A stalled line search (C5)\<close>

text \<open>
  C5. If every candidate of the line search is rejected up to a trial at which the
  search gives up (both scaled step norms are below \<open>deltaTol\<close>, or the next step length
  is not above \<open>alpha_min\<close>), \<^verbatim>\<open>takeStep\<close> returns: the flag is true, the performance is
  the baseline's and the iterate \<open>(x, u)\<close> is unchanged.
\<close>

theorem takeStep_stalled_returns_baseline:
  assumes "takeStep_inRange sol x u"
    and "\<forall>j\<le>k. \<exists>pn.
      computePerformance ext s timeDiscretization initState
        (xNew_of x (deltaXSol sol) (alpha_decay (settings s) ^ j))
        (uNew_of u (deltaUSol sol) (alpha_decay (settings s) ^ j)) = Inr pn
      \<and> \<not> stepAccepted (settings s) baseline sol (alpha_decay (settings s) ^ j) pn"
    and "alpha_decay (settings s) ^ k * trajectoryNorm (deltaUSol sol) < deltaTol (settings s)
           \<and> alpha_decay (settings s) ^ k * trajectoryNorm (deltaXSol sol) < deltaTol (settings s)
         \<or> alpha_decay (settings s) ^ Suc k \<le> alpha_min (settings s)"
  shows "takeStep ext s baseline timeDiscretization initState sol x u
         = Some (Inr (True, baseline, x, u))"
proof -
  have "takeStep_loop (settings s) (computePerformance ext s timeDiscretization initState)
          baseline sol x u 1 = Some (Inr (True, baseline, x, u))"
    by (rule takeStep_loop_stalled [where k = k])
       (use assms(2,3) in \<open>simp_all add: stepSizeBelowTol_def\<close>)
  with assms(1) show ?thesis by (simp add: takeStep_def)
qed

theorem takeStep_stalled_returns_baseline_witness:
  "takeStep example_ext example_stalling_solver (example_performance 0 4) example_grid [2]
     example_long_step [[0], [0], [0], [0]] [[0], [], [0]]
   = Some (Inr (True, example_performance 0 4, [[0], [0], [0], [0]], [[0], [], [0]]))"
proof (rule takeStep_stalled_returns_baseline [where k = 2])
  show "takeStep_inRange example_long_step [[0], [0], [0], [0]] [[0], [], [0]]"
    by (simp add: takeStep_inRange_def example_long_step_def)
next
  let ?s = example_stalling_solver
  have perf: "computePerformance example_ext ?s example_grid [2]
        (xNew_of [[0], [0], [0], [0]] (deltaXSol example_long_step) a)
        (uNew_of [[0], [], [0]] (deltaUSol example_long_step) a)
      = Inr (example_performance 0 (2 * 2))" for a
    by (rule example_computePerformance [where stgs = "settings ?s"])
       (simp_all add: example_stalling_solver_def example_settings_def xNew_of_def uNew_of_def
          example_long_step_def vplus_def vscale_def upt_4)
  have rejected: "\<not> stepAccepted (settings ?s) (example_performance 0 4) example_long_step a
                      (example_performance 0 4)" for a
    by (simp add: stepAccepted_def example_stalling_solver_def example_settings_def)
  show "\<forall>j\<le>2. \<exists>pn.
      computePerformance example_ext ?s example_grid [2]
        (xNew_of [[0], [0], [0], [0]] (deltaXSol example_long_step) (alpha_decay (settings ?s) ^ j))
        (uNew_of [[0], [], [0]] (deltaUSol example_long_step) (alpha_decay (settings ?s) ^ j)) = Inr pn
      \<and> \<not> stepAccepted (settings ?s) (example_performance 0 4) example_long_step
            (alpha_decay (settings ?s) ^ j) pn"
    using perf rejected by simp
next
  show "alpha_decay (settings example_stalling_solver) ^ 2 * trajectoryNorm (deltaUSol example_long_step)
          < deltaTol (settings example_stalling_solver)
        \<and> alpha_decay (settings example_stalling_solver) ^ 2 * trajectoryNorm (deltaXSol example_long_step)
          < deltaTol (settings example_stalling_solver)
      \<or> alpha_decay (settings example_stalling_solver) ^ Suc 2
          \<le> alpha_min (settings example_stalling_solver)"
    by (simp add: example_stalling_solver_def example_settings_def power3_eq_cube)
qed

section \<open>The feedback gains (C6)\<close>

text \<open>
  C6 as stated fails at a pre-event node: node 1 of the grid has no projection, and its
  stored gain is the gain of node 0, \<open>P\<^sub>x + P\<^sub>u K\<^sub>0 = 1\<close>, not the Riccati gain \<open>K\<^sub>1 = 2\<close>;
  its feedforward term is the one of node 0, \<open>4\<close>, not \<open>u\<^sub>1 - gain\<^sub>1 x\<^sub>1 = 3\<close>.
\<close>

theorem setPrimalSolution_gain_counterexample:
  "(case setPrimalSolution example_ext example_solver_lq example_grid [[1], [2], [2], [3]]
           [[5], [], [7]] of
      Inl e \<Rightarrow> None
    | Inr s' \<Rightarrow> Some (inputTrajectory (primalSolution s'), controllerPtr (primalSolution s')))
   = Some ([[5], [5], [7], [7]],
           Some (LinearController [0, 1, 1, 2] [[4], [4], [1], [1]] [[[1]], [[1]], [[3]], [[3]]]))
   \<and> useFeedbackPolicy (settings example_solver_lq)
   \<and> f (constraintsProjection example_solver_lq ! 1) = []
   \<and> [[[1]], [[1]], [[3]], [[3]]] ! 1
       \<noteq> getRiccatiFeedback example_ext (hpipmInterface example_solver_lq)
           (hd (dynamics example_solver_lq)) (hd (cost example_solver_lq)) ! 1
   \<and> [[4], [4], [1], [1]] ! 1
       \<noteq> vminus ([[5], [5], [7], [7]] ! 1)
           (mat_vec ([[[1]], [[1]], [[3]], [[3]]] ! 1) ([[1], [2], [2], [3]] ! 1))"
  by (subst example_setPrimalSolution)
     (simp_all add: example_ext_def example_settings_def vminus_def mat_vec_def dot_def)

text \<open>
  C6, as amended. With the feedback policy the controller of the primal solution is a
  linear controller on the time grid with one gain per node. At a node \<open>i\<close> before the
  last that is not a pre-event node with \<open>i > 0\<close>, the gain is \<open>P\<^sub>x + P\<^sub>u K\<^sub>i\<close> when the
  projection of the node has a non-empty constant term and \<open>K\<^sub>i\<close> otherwise, and the
  feedforward term is \<open>u\<^sub>i - gain\<^sub>i x\<^sub>i\<close>. A pre-event node \<open>i > 0\<close> repeats the gain and
  the feedforward term of node \<open>i - 1\<close>, and so does the last node.
\<close>

theorem setPrimalSolution_feedback_gain:
  assumes "setPrimalSolution ext s td x u = Inr s'" and "useFeedbackPolicy (settings s)"
  shows "\<exists>uff gain.
      controllerPtr (primalSolution s') = Some (LinearController (map time td) uff gain)
      \<and> length gain = length td \<and> length uff = length u + 1
      \<and> (\<forall>i. i + 1 < length td \<longrightarrow>
            (if event (td ! i) = PreEvent \<and> 0 < i
             then gain ! i = gain ! (i - 1) \<and> uff ! i = uff ! (i - 1)
             else gain ! i =
                    (if f (constraintsProjection s ! i) \<noteq> []
                     then mat_add_product (dfdx (constraintsProjection s ! i))
                            (dfdu (constraintsProjection s ! i))
                            (getRiccatiFeedback ext (hpipmInterface s) (hd (dynamics s))
                               (hd (cost s)) ! i)
                     else getRiccatiFeedback ext (hpipmInterface s) (hd (dynamics s))
                            (hd (cost s)) ! i)
                  \<and> uff ! i = vminus (inputTrajectory (primalSolution s') ! i)
                                 (mat_vec (gain ! i) (x ! i))))
      \<and> gain ! (length td - 1) = gain ! (length td - 2)
      \<and> uff ! length u = uff ! (length u - 1)"
proof -
  let ?K = "getRiccatiFeedback ext (hpipmInterface s) (hd (dynamics s)) (hd (cost s))"
  let ?P = "constraintsProjection s"
  let ?u1 = "correctPreEvents td u"
  let ?fl = "feedbackLoop ?P ?K td x ?u1"
  let ?G = "\<lambda>i. if length (f (?P ! i)) > 0
                then mat_add_product (dfdx (?P ! i)) (dfdu (?P ! i)) (?K ! i) else ?K ! i"
  note sol = setPrimalSolution_Inr(2) [OF assms(1)]
  have range: "setPrimalSolution_inRange s ?K td x u"
    by (rule setPrimalSolution_Inr(1) [OF assms(1)])
  with assms(2) have nonempty: "u \<noteq> []" and two: "2 \<le> length td"
    and inside: "\<And>i. i < length td - 1 \<Longrightarrow> i < length u"
    by (auto simp: setPrimalSolution_inRange_def list_all_iff)
  have len1: "length ?u1 = length u"
    by (rule correctPreEvents_props(1))
  note loop = feedbackLoop_upto [where P = ?P and K = ?K and td = td and x = x and u = ?u1
      and n = "length td - 1", folded feedbackLoop_def]
  have len_uff: "length (fst ?fl) = length u" and len_gain: "length (snd ?fl) = length td - 1"
    using loop len1 by simp_all
  have gains: "if event (td ! i) = PreEvent \<and> 0 < i
               then snd ?fl ! i = snd ?fl ! (i - 1) else snd ?fl ! i = ?G i"
    if "i < length td - 1" for i
    using loop that by blast
  have uffs: "if event (td ! i) = PreEvent \<and> 0 < i
              then fst ?fl ! i = fst ?fl ! (i - 1)
              else fst ?fl ! i = vminus (?u1 ! i) (mat_vec (?G i) (x ! i))"
    if "i < length td - 1" for i
    using loop that inside [OF that] len1 by simp
  let ?uff = "fst ?fl @ [last (fst ?fl)]" and ?gain = "snd ?fl @ [last (snd ?fl)]"
  have ctrl: "controllerPtr (primalSolution s') = Some (LinearController (map time td) ?uff ?gain)"
    using assms(2) by (simp add: sol)
  have inputs: "inputTrajectory (primalSolution s') ! i = ?u1 ! i" if "i < length u" for i
    using that len1 by (simp add: sol nth_append)
  have node: "if event (td ! i) = PreEvent \<and> 0 < i
       then ?gain ! i = ?gain ! (i - 1) \<and> ?uff ! i = ?uff ! (i - 1)
       else ?gain ! i = (if f (?P ! i) \<noteq> []
                         then mat_add_product (dfdx (?P ! i)) (dfdu (?P ! i)) (?K ! i)
                         else ?K ! i)
            \<and> ?uff ! i = vminus (inputTrajectory (primalSolution s') ! i)
                            (mat_vec (?gain ! i) (x ! i))"
    if "i + 1 < length td" for i
  proof -
    from that have i: "i < length td - 1" by simp
    then have iu: "i < length u" by (rule inside)
    have "i - 1 < length td - 1" "i - 1 < length u" using i iu by simp_all
    then show ?thesis
      using gains [OF i] uffs [OF i] i iu len_uff len_gain inputs [OF iu]
      by (auto simp: nth_append)
  qed
  have last_gain: "?gain ! (length td - 1) = ?gain ! (length td - 2)"
  proof -
    from two len_gain have "snd ?fl \<noteq> []" by auto
    then have "last (snd ?fl) = snd ?fl ! (length td - 2)"
      using len_gain by (simp add: last_conv_nth numeral_2_eq_2)
    moreover have "length td - 2 < length td - 1" using two by simp
    ultimately show ?thesis
      using len_gain by (simp add: nth_append)
  qed
  have last_uff: "?uff ! length u = ?uff ! (length u - 1)"
  proof -
    from nonempty len_uff have "fst ?fl \<noteq> []" by auto
    then have "last (fst ?fl) = fst ?fl ! (length u - 1)"
      using len_uff by (simp add: last_conv_nth)
    with nonempty len_uff show ?thesis
      by (simp add: nth_append)
  qed
  show ?thesis
    using ctrl len_gain len_uff two node last_gain last_uff
    by (intro exI [of _ ?uff] exI [of _ ?gain]) simp
qed

theorem setPrimalSolution_feedback_gain_witness:
  "\<exists>uff gain.
      Some (LinearController [0, 1, 1, 2] [[4], [4], [1], [1]] [[[1]], [[1]], [[3]], [[3::real]]])
        = Some (LinearController (map time example_grid) uff gain)
      \<and> gain ! 0 = mat_add_product (dfdx example_projection) (dfdu example_projection) [[1]]
      \<and> gain ! 1 = gain ! 0 \<and> uff ! 1 = uff ! 0
      \<and> uff ! 2 = vminus [7] (mat_vec (gain ! 2) [2])
      \<and> gain ! 3 = gain ! 2 \<and> uff ! 3 = uff ! 2"
proof -
  define s' where "s' = example_solver_lq
       \<lparr>primalSolution :=
          \<lparr>timeTrajectory = [0, 1, 1, 2], stateTrajectory = [[1], [2], [2], [3]],
           inputTrajectory = [[5], [5], [7], [7]],
           modeSchedule = \<lparr>eventTimes = [1], modeSequence = [0, 1]\<rparr>,
           controllerPtr =
             Some (LinearController [0, 1, 1, 2] [[5 - 1], [5 - 1], [7 - 3 * 2], [7 - 3 * 2]]
                     [[[1]], [[1]], [[3]], [[3]]])\<rparr>,
        constraintsProjection :=
          [example_projection\<lparr>dfdx := []\<rparr>, VectorFunctionLinearApproximation_Zero 0 1 0,
           example_projection\<lparr>dfdx := []\<rparr>]\<rparr>"
  have run: "setPrimalSolution example_ext example_solver_lq example_grid [[1], [2], [2], [3]]
               [[5], [], [7]] = Inr s'"
    unfolding s'_def by (rule example_setPrimalSolution) simp_all
  have feedback: "useFeedbackPolicy (settings example_solver_lq)"
    by (simp add: example_settings_def)
  from setPrimalSolution_feedback_gain [OF run feedback] obtain uff gain where
    ctrl: "controllerPtr (primalSolution s') = Some (LinearController (map time example_grid) uff gain)"
    and nodes: "\<forall>i. i + 1 < length example_grid \<longrightarrow>
            (if event (example_grid ! i) = PreEvent \<and> 0 < i
             then gain ! i = gain ! (i - 1) \<and> uff ! i = uff ! (i - 1)
             else gain ! i =
                    (if f (constraintsProjection example_solver_lq ! i) \<noteq> []
                     then mat_add_product (dfdx (constraintsProjection example_solver_lq ! i))
                            (dfdu (constraintsProjection example_solver_lq ! i))
                            (getRiccatiFeedback example_ext (hpipmInterface example_solver_lq)
                               (hd (dynamics example_solver_lq))
                               (hd (cost example_solver_lq)) ! i)
                     else getRiccatiFeedback example_ext (hpipmInterface example_solver_lq)
                            (hd (dynamics example_solver_lq)) (hd (cost example_solver_lq)) ! i)
                  \<and> uff ! i = vminus (inputTrajectory (primalSolution s') ! i)
                                 (mat_vec (gain ! i) ([[1], [2], [2], [3]] ! i)))"
    and last: "gain ! (length example_grid - 1) = gain ! (length example_grid - 2)"
      "uff ! length [[5], [], [7::real]] = uff ! (length [[5], [], [7::real]] - 1)"
    by blast
  have K: "getRiccatiFeedback example_ext h d c = [[[1]], [[2]], [[3]]]" for h d c
    by (simp add: example_ext_def)
  from ctrl have explicit: "uff = [[4], [4], [1], [1]]" "gain = [[[1]], [[1]], [[3]], [[3]]]"
    by (simp_all add: s'_def)
  from nodes [rule_format, of 0] nodes [rule_format, of 1] nodes [rule_format, of 2] last ctrl
  show ?thesis
    unfolding explicit
    by (intro exI [of _ "[[4], [4], [1], [1]]"] exI [of _ "[[[1]], [[1]], [[3]], [[3]]]"])
       (simp add: K s'_def vminus_def mat_vec_def dot_def)
qed

section \<open>The trajectories of the primal solution (C7)\<close>

text \<open>
  C7. In every primal solution that \<^verbatim>\<open>setPrimalSolution\<close> assembles from a time grid, a
  state trajectory with one state per node and an input trajectory with one input per
  node but the last, the time, state and input trajectories have the length of the grid,
  and the input stored at a pre-event node \<open>i > 0\<close> is the input stored at node \<open>i - 1\<close>.
  The iterate that \<^verbatim>\<open>runImpl\<close> hands to \<^verbatim>\<open>setPrimalSolution\<close> has these lengths, so
  the primal solution of every completed run has the two properties.
\<close>

theorem primalSolution_trajectories:
  "(setPrimalSolution ext s td x u = Inr s1 \<and> length x = length td \<and> length u + 1 = length td
      \<longrightarrow> length (timeTrajectory (primalSolution s1)) = length td
        \<and> length (stateTrajectory (primalSolution s1)) = length td
        \<and> length (inputTrajectory (primalSolution s1)) = length td
        \<and> (\<forall>i. 0 < i \<and> i < length td \<and> event (td ! i) = PreEvent
              \<longrightarrow> inputTrajectory (primalSolution s1) ! i
                  = inputTrajectory (primalSolution s1) ! (i - 1)))
   \<and> (runImpl ext s initTime initState finalTime partitioningTimes = Some (Inr s2)
      \<longrightarrow> (let grid = timeDiscretizationWithEvents ext initTime finalTime (dt (settings s))
                         (eventTimes (getModeSchedule ext))
          in length (timeTrajectory (primalSolution s2)) = length grid
             \<and> length (stateTrajectory (primalSolution s2)) = length grid
             \<and> length (inputTrajectory (primalSolution s2)) = length grid
             \<and> (\<forall>i. 0 < i \<and> i < length grid \<and> event (grid ! i) = PreEvent
                   \<longrightarrow> inputTrajectory (primalSolution s2) ! i
                       = inputTrajectory (primalSolution s2) ! (i - 1))))"
proof -
  let ?grid = "timeDiscretizationWithEvents ext initTime finalTime (dt (settings s))
                 (eventTimes (getModeSchedule ext))"
  have "let grid = ?grid
        in length (timeTrajectory (primalSolution s2)) = length grid
           \<and> length (stateTrajectory (primalSolution s2)) = length grid
           \<and> length (inputTrajectory (primalSolution s2)) = length grid
           \<and> (\<forall>i. 0 < i \<and> i < length grid \<and> event (grid ! i) = PreEvent
                 \<longrightarrow> inputTrajectory (primalSolution s2) ! i
                     = inputTrajectory (primalSolution s2) ! (i - 1))"
    if run: "runImpl ext s initTime initState finalTime partitioningTimes = Some (Inr s2)"
  proof -
    from run obtain x0 u0 where
      init: "initializeStateInputTrajectories ext s initState ?grid = Inr (x0, u0)"
      by (auto simp: runImpl_def Let_def split: sum.splits)
    from run init obtain s1 x1 u1 where
      iterations: "sqpIterations ext ?grid initState (sqpIteration (settings s))
                     (s\<lparr>performanceIndeces := []\<rparr>) x0 u0 = Some (Inr (s1, x1, u1))"
      and final: "setPrimalSolution ext s1 ?grid x1 u1 = Inr s2"
      by (auto simp: runImpl_def Let_def split: sum.splits option.splits)
    have "length x1 = length ?grid" "length u1 + 1 = length ?grid"
      using initializeStateInputTrajectories_lengths [OF init]
        sqpIterations_invariants [OF iterations] by simp_all
    from setPrimalSolution_trajectories [OF final this]
    show ?thesis by (simp add: Let_def)
  qed
  then show ?thesis
    using setPrimalSolution_trajectories [of ext s td x u s1] by blast
qed

theorem primalSolution_trajectories_witness:
  "runImpl example_ext example_solver 0 [0] 2 [0, 2] = Some (Inr example_solved)
   \<and> length (timeTrajectory (primalSolution example_solved)) = 4
   \<and> length (stateTrajectory (primalSolution example_solved)) = 4
   \<and> length (inputTrajectory (primalSolution example_solved)) = 4
   \<and> event (example_grid ! 1) = PreEvent
   \<and> inputTrajectory (primalSolution example_solved) ! 1
       = inputTrajectory (primalSolution example_solved) ! 0"
proof -
  have final: "setPrimalSolution example_ext
                 (example_solver_lq\<lparr>performanceIndeces := [example_performance 0 0],
                                     totalNumIterations := 1\<rparr>)
                 example_grid [[0], [0], [0], [0]] [[0], [], [0]] = Inr example_solved"
    by (subst example_setPrimalSolution) (simp_all add: example_solved_def)
  have grid: "timeDiscretizationWithEvents example_ext a b c d = example_grid" for a b c d
    by (simp add: example_ext_def)
  from primalSolution_trajectories
    [where ext = example_ext and s = "example_solver_lq\<lparr>performanceIndeces :=
         [example_performance 0 0], totalNumIterations := 1\<rparr>"
       and td = example_grid and x = "[[0], [0], [0], [0]]" and u = "[[0], [], [0]]"
       and ?s1.0 = example_solved and ?s2.0 = example_solved and initTime = 0
       and initState = "[0]" and finalTime = 2 and partitioningTimes = "[0, 2]"]
    final example_runImpl
  have "length (timeTrajectory (primalSolution example_solved)) = 4
     \<and> length (stateTrajectory (primalSolution example_solved)) = 4
     \<and> length (inputTrajectory (primalSolution example_solved)) = 4
     \<and> (\<forall>i. 0 < i \<and> i < 4 \<and> event (example_grid ! i) = PreEvent
           \<longrightarrow> inputTrajectory (primalSolution example_solved) ! i
               = inputTrajectory (primalSolution example_solved) ! (i - 1))"
    by simp
  then show ?thesis
    using example_runImpl by (auto dest: spec [of _ 1])
qed

section \<open>Construction without equality constraints (C8)\<close>

text \<open>
  C8. A solver constructed from a problem whose collection of equality constraints is
  empty has \<^verbatim>\<open>projectStateInputEqualityConstraints\<close> false, whatever the supplied
  settings say, and keeps every other setting.
\<close>

theorem constructor_disables_projection:
  assumes "empty (equalityConstraintPtr optimalControlProblem)"
  shows "settings (MultipleShootingSolver_new stgs optimalControlProblem workspace)
         = stgs\<lparr>projectStateInputEqualityConstraints := False\<rparr>"
  using assms by (simp add: MultipleShootingSolver_new_def)

theorem constructor_disables_projection_witness:
  "projectStateInputEqualityConstraints example_settings
   \<and> empty (equalityConstraintPtr \<lparr>equalityConstraintPtr = (Collection_new :: unit Collection)\<rparr>)
   \<and> \<not> projectStateInputEqualityConstraints
        (settings (MultipleShootingSolver_new example_settings
           \<lparr>equalityConstraintPtr = (Collection_new :: unit Collection)\<rparr> ()))"
proof -
  have e: "empty (equalityConstraintPtr \<lparr>equalityConstraintPtr = (Collection_new :: unit Collection)\<rparr>)"
    by (simp add: empty_def Collection_new_def)
  show ?thesis
    using e constructor_disables_projection [OF e, of example_settings "()"]
    by (simp add: example_settings_def)
qed

section \<open>Adding to and reading from a collection (C9)\<close>

text \<open>
  C9. \<^verbatim>\<open>add\<close> with a name that is already present fails with \<open>DuplicateTerm\<close> and leaves
  the collection as it was; with a fresh name it succeeds, appends the term at the end of
  the sequence and makes it the result of \<^verbatim>\<open>get\<close> for that name, while \<^verbatim>\<open>get\<close> for
  every other name returns what it returned before. So in a collection built by a
  sequence of \<^verbatim>\<open>add\<close> calls \<^verbatim>\<open>get\<close> returns, for every name, the term of the first
  \<^verbatim>\<open>add\<close> with that name, and \<^verbatim>\<open>get\<close> with a name that no \<^verbatim>\<open>add\<close> has been given
  fails with \<open>UnknownTerm\<close>.
\<close>

theorem Collection_add_get:
  "(termNameMap c name \<noteq> None \<longrightarrow> add name t c = (Inl (DuplicateTerm name), c))
   \<and> (termNameMap c name = None \<longrightarrow>
        fst (add name t c) = Inr ()
        \<and> terms (snd (add name t c)) = terms c @ [t]
        \<and> get (snd (add name t c)) name = Inr t)
   \<and> (other \<noteq> name \<longrightarrow>
        get (snd (add name t (add_all ops Collection_new))) other
          = get (add_all ops Collection_new) other)
   \<and> get (add_all ops Collection_new) name
       = (case map_of ops name of None \<Rightarrow> Inl (UnknownTerm name) | Some t' \<Rightarrow> Inr t')
   \<and> (name \<notin> fst ` set ops \<longrightarrow> get (add_all ops Collection_new) name = Inl (UnknownTerm name))"
proof (intro conjI impI)
  assume "termNameMap c name \<noteq> None"
  then show "add name t c = (Inl (DuplicateTerm name), c)"
    by (auto simp: add_def emplace_def Let_def)
next
  assume fresh: "termNameMap c name = None"
  then show "fst (add name t c) = Inr ()" "terms (snd (add name t c)) = terms c @ [t]"
    "get (snd (add name t c)) name = Inr t"
    by (simp_all add: add_def emplace_def get_def Let_def)
next
  assume "other \<noteq> name"
  then show "get (snd (add name t (add_all ops Collection_new))) other
          = get (add_all ops Collection_new) other"
    by (rule get_add_other [OF add_all_wellformed])
next
  show "get (add_all ops Collection_new) name
       = (case map_of ops name of None \<Rightarrow> Inl (UnknownTerm name) | Some t' \<Rightarrow> Inr t')"
    by (subst get_add_all) (simp_all add: Collection_new_def)
next
  assume "name \<notin> fst ` set ops"
  then have "termNameMap (add_all ops (Collection_new :: 'a Collection)) name = None"
    by (simp add: termNameMap_add_all Collection_new_def)
  then show "get (add_all ops Collection_new) name = Inl (UnknownTerm name)"
    by (simp add: get_def)
qed

theorem Collection_add_get_witness:
  "add ''cost'' (9::nat) (add_all [(''cost'', 5), (''goal'', 7)] Collection_new)
     = (Inl (DuplicateTerm ''cost''), add_all [(''cost'', 5), (''goal'', 7)] Collection_new)
   \<and> terms (add_all [(''cost'', 5::nat), (''goal'', 7)] Collection_new) = [5, 7]
   \<and> fst (add ''goal'' (7::nat) (add_all [(''cost'', 5)] Collection_new)) = Inr ()
   \<and> terms (snd (add ''goal'' (7::nat) (add_all [(''cost'', 5)] Collection_new))) = [5, 7]
   \<and> get (snd (add ''goal'' (7::nat) (add_all [(''cost'', 5)] Collection_new))) ''goal'' = Inr 7
   \<and> get (snd (add ''goal'' (7::nat) (add_all [(''cost'', 5)] Collection_new))) ''cost'' = Inr 5
   \<and> get (add_all [(''cost'', 5::nat), (''goal'', 7), (''cost'', 9)] Collection_new) ''cost'' = Inr 5
   \<and> get (add_all [(''cost'', 5::nat), (''goal'', 7), (''cost'', 9)] Collection_new) ''goal'' = Inr 7
   \<and> get (add_all [(''cost'', 5::nat), (''goal'', 7)] Collection_new) ''other''
       = Inl (UnknownTerm ''other'')"
  using Collection_add_get [where c = "add_all [(''cost'', 5::nat), (''goal'', 7)] Collection_new"
      and name = "''cost''" and t = 9 and other = "''goal''"
      and ops = "[(''cost'', 5::nat), (''goal'', 7), (''cost'', 9)]"]
    Collection_add_get [where c = "add_all [(''cost'', 5::nat)] Collection_new"
      and name = "''goal''" and t = 7 and other = "''cost''"
      and ops = "[(''cost'', 5::nat)]"]
    Collection_add_get [where c = "Collection_new :: nat Collection"
      and name = "''goal''" and t = 7 and other = "''cost''"
      and ops = "[(''cost'', 5::nat), (''goal'', 7), (''cost'', 9)]"]
    Collection_add_get [where c = "Collection_new :: nat Collection"
      and name = "''other''" and t = 7 and other = "''cost''"
      and ops = "[(''cost'', 5::nat), (''goal'', 7)]"]
  by (simp add: add_def emplace_def Collection_new_def Let_def)

section \<open>The iteration log (C10)\<close>

text \<open>
  C10. \<^verbatim>\<open>getIterationsLog\<close> fails while the list of performance indices is empty, as it
  is after construction and after \<^verbatim>\<open>reset\<close>. A completed run leaves one performance
  index per SQP iteration it performed, at most \<open>sqpIteration\<close> of them, and
  \<^verbatim>\<open>getIterationsLog\<close> then returns that list; a run with \<open>sqpIteration = 0\<close> performs no
  iteration and leaves the list empty.
\<close>

theorem getIterationsLog_after_run:
  "getIterationsLog (reset s) = Inl NoPerformanceLog
   \<and> getIterationsLog (MultipleShootingSolver_new stgs optimalControlProblem workspace)
       = Inl NoPerformanceLog
   \<and> (performanceIndeces s = [] \<longrightarrow> getIterationsLog s = Inl NoPerformanceLog)
   \<and> (runImpl ext s initTime initState finalTime partitioningTimes = Some (Inr s') \<longrightarrow>
        length (performanceIndeces s') = totalNumIterations s' - totalNumIterations s
        \<and> length (performanceIndeces s') \<le> sqpIteration (settings s)
        \<and> getIterationsLog s' = (if sqpIteration (settings s) = 0 then Inl NoPerformanceLog
                                  else Inr (performanceIndeces s')))"
proof (intro conjI impI)
  show "getIterationsLog (reset s) = Inl NoPerformanceLog"
    by (simp add: getIterationsLog_def reset_def)
  show "getIterationsLog (MultipleShootingSolver_new stgs optimalControlProblem workspace)
        = Inl NoPerformanceLog"
    by (simp add: getIterationsLog_def MultipleShootingSolver_new_def Let_def)
  show "getIterationsLog s = Inl NoPerformanceLog" if "performanceIndeces s = []"
    using that by (simp add: getIterationsLog_def)
next
  let ?grid = "timeDiscretizationWithEvents ext initTime finalTime (dt (settings s))
                 (eventTimes (getModeSchedule ext))"
  assume run: "runImpl ext s initTime initState finalTime partitioningTimes = Some (Inr s')"
  then obtain x0 u0 where
    init: "initializeStateInputTrajectories ext s initState ?grid = Inr (x0, u0)"
    by (auto simp: runImpl_def Let_def split: sum.splits)
  from run init obtain s1 x1 u1 where
    iterations: "sqpIterations ext ?grid initState (sqpIteration (settings s))
                   (s\<lparr>performanceIndeces := []\<rparr>) x0 u0 = Some (Inr (s1, x1, u1))"
    and final: "setPrimalSolution ext s1 ?grid x1 u1 = Inr s'"
    by (auto simp: runImpl_def Let_def split: sum.splits option.splits)
  from sqpIterations_invariants [OF iterations] obtain steps where
    steps: "performanceIndeces s1 = steps" "totalNumIterations s1 = totalNumIterations s + length steps"
      "length steps \<le> sqpIteration (settings s)" "0 < sqpIteration (settings s) \<longrightarrow> steps \<noteq> []"
    by auto
  from steps(3) have none: "sqpIteration (settings s) = 0 \<longrightarrow> steps = []"
    by auto
  note kept = setPrimalSolution_Inr(3,4) [OF final]
  show "length (performanceIndeces s') = totalNumIterations s' - totalNumIterations s"
    "length (performanceIndeces s') \<le> sqpIteration (settings s)"
    "getIterationsLog s' = (if sqpIteration (settings s) = 0 then Inl NoPerformanceLog
                            else Inr (performanceIndeces s'))"
    using steps none kept by (auto simp: getIterationsLog_def)
qed

theorem getIterationsLog_after_run_witness:
  "getIterationsLog example_solver = Inl NoPerformanceLog
   \<and> runImpl example_ext example_solver 0 [0] 2 [0, 2] = Some (Inr example_solved)
   \<and> getIterationsLog example_solved = Inr [example_performance 0 0]
   \<and> totalNumIterations example_solved - totalNumIterations example_solver = 1
   \<and> getIterationsLog (reset example_solved) = Inl NoPerformanceLog"
proof -
  have log: "performanceIndeces example_solved = [example_performance 0 0]"
    "totalNumIterations example_solved = 1"
    by (simp_all add: example_solved_def)
  from getIterationsLog_after_run
    [where s = example_solver and ext = example_ext and initTime = 0 and initState = "[0]"
       and finalTime = 2 and partitioningTimes = "[0, 2]" and s' = example_solved
       and stgs = example_settings and optimalControlProblem = example_problem
       and workspace = "()"]
    example_runImpl
  have "getIterationsLog example_solver = Inl NoPerformanceLog"
    "getIterationsLog example_solved = Inr (performanceIndeces example_solved)"
    "length (performanceIndeces example_solved)
     = totalNumIterations example_solved - totalNumIterations example_solver"
    by (simp_all add: example_settings_def)
  moreover from getIterationsLog_after_run
    [where s = example_solved and ext = example_ext and initTime = 0 and initState = "[0]"
       and finalTime = 2 and partitioningTimes = "[0, 2]" and s' = example_solved
       and stgs = example_settings and optimalControlProblem = example_problem
       and workspace = "()"]
  have "getIterationsLog (reset example_solved) = Inl NoPerformanceLog"
    by simp
  ultimately show ?thesis
    using example_runImpl log by simp
qed

end
